theory Spec2Isabelle
  imports Main "HOL-Library.Word" "HOL-Library.Multiset"
begin

section \<open>The table of the rendering layer (table.h, table.cpp)\<close>

text \<open>
  \<^verbatim>\<open>Table::Width\<close> and \<^verbatim>\<open>Table::RowIndex\<close> are \<^verbatim>\<open>uint32_t\<close>; sizes of
  vectors and strings are \<^verbatim>\<open>size_t\<close>, read here as natural numbers, with the
  64-bit wrap-around written out where the source computes with them.
\<close>

type_synonym Width = "32 word"
type_synonym RowIndex = "32 word"

record Column =
  minValueWidth :: Width
  maxValueWidth :: Width
  configuredWidth :: Width

record Table =
  values_t :: "string list"
  columns :: "Column list"
  numRows :: RowIndex

text \<open>
  What the table's member functions throw: \<^verbatim>\<open>std::runtime_error\<close> with one of
  three messages, and the \<^verbatim>\<open>std::out_of_range\<close> of \<^verbatim>\<open>vector::at\<close>.
\<close>

datatype table_error =
  ColumnOutOfRange Width nat
  | RowOutOfRange RowIndex RowIndex
  | WidthOverflow
  | VectorAtOutOfRange

definition default_Column :: Column where
  "default_Column = \<lparr>minValueWidth = 0, maxValueWidth = 0, configuredWidth = 0\<rparr>"

definition Table_ctor :: "Width \<Rightarrow> Table" where
  "Table_ctor numColumns =
     \<lparr>values_t = [], columns = replicate (unat numColumns) default_Column, numRows = 0\<rparr>"

definition resize :: "nat \<Rightarrow> string list \<Rightarrow> string list" where
  "resize n xs = take n xs @ replicate (n - length xs) []"

definition addRow :: "Table \<Rightarrow> RowIndex \<times> Table" where
  "addRow t =
     (let rowIndex = numRows t;
          t1 = t\<lparr>numRows := numRows t + 1\<rparr>;
          n = ((unat rowIndex * length (columns t1)) mod 2 ^ 64 + length (columns t1)) mod 2 ^ 64
      in (rowIndex, t1\<lparr>values_t := resize n (values_t t1)\<rparr>))"

definition resolveValueIdx :: "Table \<Rightarrow> RowIndex \<Rightarrow> Width \<Rightarrow> table_error + nat" where
  "resolveValueIdx t row column =
     (if unat column \<ge> length (columns t) then Inl (ColumnOutOfRange column (length (columns t)))
      else if row \<ge> numRows t then Inl (RowOutOfRange row (numRows t))
      else Inr (((unat row * length (columns t)) mod 2 ^ 64 + unat column) mod 2 ^ 64))"

definition columnValue :: "Table \<Rightarrow> RowIndex \<Rightarrow> Width \<Rightarrow> table_error + string" where
  "columnValue t row column =
     (case resolveValueIdx t row column of
        Inl e \<Rightarrow> Inl e
      | Inr idx \<Rightarrow> if idx < length (values_t t) then Inr (values_t t ! idx) else Inl VectorAtOutOfRange)"

text \<open>
  \<^verbatim>\<open>setColumnValue\<close> returns the error it throws, if any, and the table as the
  call leaves it. Every throw happens before the first write.
\<close>

definition setColumnValue :: "Table \<Rightarrow> RowIndex \<Rightarrow> Width \<Rightarrow> string \<Rightarrow> table_error option \<times> Table" where
  "setColumnValue t row column v =
     (if length v > 4294967295 then (Some WidthOverflow, t)
      else case resolveValueIdx t row column of
        Inl e \<Rightarrow> (Some e, t)
      | Inr idx \<Rightarrow>
          if idx \<ge> length (values_t t) then (Some VectorAtOutOfRange, t)
          else if unat column \<ge> length (columns t) then (Some VectorAtOutOfRange, t)
          else
            (let t1 = t\<lparr>values_t := (values_t t)[idx := v]\<rparr>;
                 strValue = values_t t1 ! idx;
                 colInfo = columns t1 ! unat column;
                 w = (word_of_nat (length strValue) :: Width);
                 colInfo1 = colInfo\<lparr>minValueWidth := min (minValueWidth colInfo) w\<rparr>;
                 colInfo2 = colInfo1\<lparr>maxValueWidth := max (maxValueWidth colInfo1) w\<rparr>
             in (None, t1\<lparr>columns := (columns t1)[unat column := colInfo2]\<rparr>)))"

datatype table_op = AddRow | SetColumnValue RowIndex Width string

fun table_step :: "Table \<Rightarrow> table_op \<Rightarrow> Table" where
  "table_step t AddRow = snd (addRow t)"
| "table_step t (SetColumnValue row column v) = snd (setColumnValue t row column v)"

definition table_run :: "Table \<Rightarrow> table_op list \<Rightarrow> Table" where
  "table_run t ops = foldl table_step t ops"

definition all_min_zero :: "Table \<Rightarrow> bool" where
  "all_min_zero t = list_all (\<lambda>c. minValueWidth c = 0) (columns t)"

section \<open>The native driver, as the wrappers see it (dpi.h)\<close>

text \<open>
  The wrappers of \<^verbatim>\<open>oracle_helpers.cpp\<close> hold opaque pointers into the native
  driver and call it through its C interface. A pointer is an address or
  \<^verbatim>\<open>nullptr\<close>.
\<close>

type_synonym addr = nat
type_synonym ptr = "addr option"

datatype dpiNativeTypeNum =
  DPI_NATIVE_TYPE_INT64
  | DPI_NATIVE_TYPE_UINT64
  | DPI_NATIVE_TYPE_FLOAT
  | DPI_NATIVE_TYPE_DOUBLE
  | DPI_NATIVE_TYPE_BYTES
  | DPI_NATIVE_TYPE_TIMESTAMP
  | DPI_NATIVE_TYPE_INTERVAL_DS
  | DPI_NATIVE_TYPE_INTERVAL_YM
  | DPI_NATIVE_TYPE_LOB
  | DPI_NATIVE_TYPE_OBJECT
  | DPI_NATIVE_TYPE_STMT
  | DPI_NATIVE_TYPE_BOOLEAN
  | DPI_NATIVE_TYPE_ROWID
  | DPI_NATIVE_TYPE_NULL

datatype dpiOracleTypeNum = DPI_ORACLE_TYPE_CHAR | DPI_ORACLE_TYPE_OTHER nat

record dpiErrorInfo =
  err_code :: int
  err_message :: string

record dpiTimestamp =
  year :: int
  month :: nat
  day :: nat
  hour :: nat
  minute :: nat
  second :: nat
  fsecond :: nat
  tzHourOffset :: int
  tzMinuteOffset :: int

text \<open>
  \<^verbatim>\<open>dpiDataBuffer\<close> is a C union. The wrappers only read it, each accessor
  through one member, so the model keeps one field per member: what the slot's
  bytes give when read through that member. Floating-point members are kept
  as their bit patterns.
\<close>

record dpiDataBuffer =
  asBoolean :: int
  asInt64 :: "64 word"
  asUint64 :: "64 word"
  asFloat :: "32 word"
  asDouble :: "64 word"
  asTimestamp :: dpiTimestamp
  asBytes :: string

record dpiData =
  isNull :: int
  val :: dpiDataBuffer

text \<open>
  Everything the wrappers ask of the driver is recorded, oldest first, with
  the moment the driver frees a handle's resource.
\<close>

datatype dpi_event =
  AddRef ptr
  | Release ptr
  | Freed addr
  | Rowid_getStringValue ptr
  | Var_setFromBytes ptr "32 word" string "32 word"
  | Var_getReturnedData ptr "32 word"
  | Conn_newVar ptr dpiOracleTypeNum dpiNativeTypeNum "32 word" "32 word" "32 word" bool ptr
  | Stmt_execute ptr
  | Stmt_fetch ptr
  | Context_getError ptr
  | Context_destroy ptr

record native =
  refCount :: "addr \<Rightarrow> nat"
  events :: "dpi_event list"
  mem :: "addr \<Rightarrow> dpiData"
  varSlots :: "addr \<Rightarrow> addr"
  rowidText :: "addr \<Rightarrow> string"
  lastError :: dpiErrorInfo
  cursor :: "addr \<Rightarrow> nat option"

text \<open>
  What is up to the driver and the database: the status code of a call that
  can fail, and the values it writes to its output parameters.
\<close>

record driver =
  rc_of :: "native \<Rightarrow> dpi_event \<Rightarrow> int"
  newVar_out :: "native \<Rightarrow> addr \<times> addr"
  returnedData_out :: "native \<Rightarrow> ptr \<Rightarrow> 32 word \<Rightarrow> 32 word \<times> addr"
  resultRows :: "native \<Rightarrow> addr \<Rightarrow> nat"

definition DPI_SUCCESS :: int where
  "DPI_SUCCESS = 0"

definition DPI_FAILURE :: int where
  "DPI_FAILURE = - 1"

definition record_event :: "dpi_event \<Rightarrow> native \<Rightarrow> native" where
  "record_event e n = n\<lparr>events := events n @ [e]\<rparr>"

subsection \<open>Reference counting\<close>

text \<open>
  Modelled from the spec: the driver's \<^verbatim>\<open>addRef\<close> and \<^verbatim>\<open>release\<close> calls
  (\<^verbatim>\<open>dpiVar_addRef\<close>, \<^verbatim>\<open>dpiConn_release\<close>, ...), whose code is the driver's
  and not part of the sources. A handle with count 0 is not (or no longer) a
  handle. \<^verbatim>\<open>addRef\<close> adds one to the count of a live handle; \<^verbatim>\<open>release\<close> takes
  one off and the driver frees the resource when the count reaches zero. On a
  null pointer or a handle that is not live both calls fail and change
  nothing; the wrappers ignore their status.
\<close>

definition dpi_addRef :: "ptr \<Rightarrow> native \<Rightarrow> native" where
  "dpi_addRef p n =
     (let n1 = record_event (AddRef p) n in
      case p of
        None \<Rightarrow> n1
      | Some a \<Rightarrow>
          if refCount n1 a = 0 then n1
          else n1\<lparr>refCount := (refCount n1)(a := refCount n1 a + 1)\<rparr>)"

definition dpi_release :: "ptr \<Rightarrow> native \<Rightarrow> native" where
  "dpi_release p n =
     (let n1 = record_event (Release p) n in
      case p of
        None \<Rightarrow> n1
      | Some a \<Rightarrow>
          if refCount n1 a = 0 then n1
          else if refCount n1 a = 1
          then record_event (Freed a) (n1\<lparr>refCount := (refCount n1)(a := 0)\<rparr>)
          else n1\<lparr>refCount := (refCount n1)(a := refCount n1 a - 1)\<rparr>)"

definition dpiVar_addRef :: "ptr \<Rightarrow> native \<Rightarrow> native" where
  "dpiVar_addRef = dpi_addRef"

definition dpiVar_release :: "ptr \<Rightarrow> native \<Rightarrow> native" where
  "dpiVar_release = dpi_release"

definition dpiConn_addRef :: "ptr \<Rightarrow> native \<Rightarrow> native" where
  "dpiConn_addRef = dpi_addRef"

definition dpiConn_release :: "ptr \<Rightarrow> native \<Rightarrow> native" where
  "dpiConn_release = dpi_release"

definition dpiStmt_addRef :: "ptr \<Rightarrow> native \<Rightarrow> native" where
  "dpiStmt_addRef = dpi_addRef"

definition dpiStmt_release :: "ptr \<Rightarrow> native \<Rightarrow> native" where
  "dpiStmt_release = dpi_release"

definition dpiRowid_addRef :: "ptr \<Rightarrow> native \<Rightarrow> native" where
  "dpiRowid_addRef = dpi_addRef"

definition dpiRowid_release :: "ptr \<Rightarrow> native \<Rightarrow> native" where
  "dpiRowid_release = dpi_release"

text \<open>
  Modelled from the spec: \<^verbatim>\<open>dpiRowid_getStringValue\<close>, the driver's
  string-extraction call. For a live row id it writes the row id's text to its
  output parameters; otherwise it fails and leaves them as the caller
  initialised them, which \<^verbatim>\<open>_initStrValue\<close> does with \<^verbatim>\<open>nullptr\<close> and 0.
\<close>

definition dpiRowid_getStringValue :: "ptr \<Rightarrow> native \<Rightarrow> string \<times> native" where
  "dpiRowid_getStringValue p n =
     (let n1 = record_event (Rowid_getStringValue p) n in
      case p of
        None \<Rightarrow> ([], n1)
      | Some a \<Rightarrow> if refCount n1 a = 0 then ([], n1) else (rowidText n1 a, n1))"

subsection \<open>Calls that report a status\<close>

definition dpiContext_getError :: "ptr \<Rightarrow> native \<Rightarrow> dpiErrorInfo \<times> native" where
  "dpiContext_getError c n = (lastError n, record_event (Context_getError c) n)"

definition dpiContext_destroy :: "driver \<Rightarrow> ptr \<Rightarrow> native \<Rightarrow> int \<times> native" where
  "dpiContext_destroy drv c n = (rc_of drv n (Context_destroy c), record_event (Context_destroy c) n)"

text \<open>
  Modelled from the spec: \<^verbatim>\<open>dpiVar_setFromBytes\<close>. When the driver accepts the
  call it copies the bytes into slot \<^verbatim>\<open>pos\<close> of the variable and clears the
  slot's null flag.
\<close>

definition dpiVar_setFromBytes ::
  "driver \<Rightarrow> ptr \<Rightarrow> 32 word \<Rightarrow> string \<Rightarrow> 32 word \<Rightarrow> native \<Rightarrow> int \<times> native" where
  "dpiVar_setFromBytes drv v pos bytes len n =
     (let e = Var_setFromBytes v pos bytes len;
          rc = rc_of drv n e;
          n1 = record_event e n
      in case v of
           None \<Rightarrow> (rc, n1)
         | Some a \<Rightarrow>
             if rc = DPI_SUCCESS
             then
               (let slot = varSlots n1 a + unat pos;
                    d = mem n1 slot;
                    d1 = d\<lparr>isNull := 0, val := (val d)\<lparr>asBytes := take (unat len) bytes\<rparr>\<rparr>
                in (rc, n1\<lparr>mem := (mem n1)(slot := d1)\<rparr>))
             else (rc, n1))"

text \<open>
  Modelled from the spec: \<^verbatim>\<open>dpiConn_newVar\<close>. When the driver accepts the call
  it creates a variable handle with one reference and an array of
  \<^verbatim>\<open>maxArraySize\<close> slots, every slot flagged null, and returns both.
\<close>

definition null_slots :: "addr \<Rightarrow> nat \<Rightarrow> (addr \<Rightarrow> dpiData) \<Rightarrow> (addr \<Rightarrow> dpiData)" where
  "null_slots base k m = (\<lambda>a. if base \<le> a \<and> a < base + k then (m a)\<lparr>isNull := 1\<rparr> else m a)"

definition dpiConn_newVar ::
  "driver \<Rightarrow> ptr \<Rightarrow> dpiOracleTypeNum \<Rightarrow> dpiNativeTypeNum \<Rightarrow> 32 word \<Rightarrow> 32 word \<Rightarrow> 32 word \<Rightarrow> bool \<Rightarrow> ptr
     \<Rightarrow> native \<Rightarrow> (int \<times> ptr \<times> ptr) \<times> native" where
  "dpiConn_newVar drv conn dbTypeNum nativeTypeNum maxArraySize sz sizeIsBytes isArray objType n =
     (let e = Conn_newVar conn dbTypeNum nativeTypeNum maxArraySize sz sizeIsBytes isArray objType;
          rc = rc_of drv n e;
          n1 = record_event e n
      in if rc = DPI_SUCCESS
         then
           (let (var, base) = newVar_out drv n
            in ((rc, Some var, Some base),
                n1\<lparr>refCount := (refCount n1)(var := 1),
                   varSlots := (varSlots n1)(var := base),
                   mem := null_slots base (unat maxArraySize) (mem n1)\<rparr>))
         else ((rc, None, None), n1))"

definition dpiVar_getReturnedData ::
  "driver \<Rightarrow> ptr \<Rightarrow> 32 word \<Rightarrow> native \<Rightarrow> (int \<times> 32 word \<times> ptr) \<times> native" where
  "dpiVar_getReturnedData drv v pos n =
     (let e = Var_getReturnedData v pos;
          rc = rc_of drv n e;
          n1 = record_event e n
      in if rc = DPI_SUCCESS
         then (let (k, base) = returnedData_out drv n v pos in ((rc, k, Some base), n1))
         else ((rc, 0, None), n1))"

text \<open>
  Modelled from the spec: the cursor behind \<^verbatim>\<open>dpiStmt_execute\<close> and
  \<^verbatim>\<open>dpiStmt_fetch\<close> (section 4.4: prepared, executed, row-available,
  exhausted). A successful execute makes the rows of the result available; a
  successful fetch produces the next row while one is left and reports that
  none was found from then on.
\<close>

definition dpiStmt_execute :: "driver \<Rightarrow> ptr \<Rightarrow> native \<Rightarrow> int \<times> native" where
  "dpiStmt_execute drv s n =
     (let e = Stmt_execute s;
          rc = rc_of drv n e;
          n1 = record_event e n
      in case s of
           None \<Rightarrow> (DPI_FAILURE, n1)
         | Some a \<Rightarrow>
             if rc = DPI_SUCCESS
             then (rc, n1\<lparr>cursor := (cursor n1)(a := Some (resultRows drv n a))\<rparr>)
             else (rc, n1))"

definition dpiStmt_fetch :: "driver \<Rightarrow> ptr \<Rightarrow> native \<Rightarrow> (int \<times> int) \<times> native" where
  "dpiStmt_fetch drv s n =
     (let e = Stmt_fetch s;
          n1 = record_event e n
      in case s of
           None \<Rightarrow> ((DPI_FAILURE, 0), n1)
         | Some a \<Rightarrow>
             (case cursor n1 a of
                None \<Rightarrow> ((DPI_FAILURE, 0), n1)
              | Some 0 \<Rightarrow> ((DPI_SUCCESS, 0), n1)
              | Some (Suc k) \<Rightarrow>
                  if rc_of drv n e = DPI_SUCCESS
                  then ((DPI_SUCCESS, 1), n1\<lparr>cursor := (cursor n1)(a := Some k)\<rparr>)
                  else ((rc_of drv n e, 0), n1)))"

section \<open>The wrappers (oracle_helpers.h, oracle_helpers.cpp)\<close>

subsection \<open>Errors\<close>

text \<open>
  \<^verbatim>\<open>OracleException\<close> has two constructors: one wraps a native error record and
  takes its \<^verbatim>\<open>what()\<close> text from the record's message, the other is built from
  a context string alone and carries no native error record.
\<close>

datatype OracleException =
  OracleException (exc_what: string) (exc_info: "dpiErrorInfo option") (exc_context: string)

definition OracleException_info :: "dpiErrorInfo \<Rightarrow> string \<Rightarrow> OracleException" where
  "OracleException_info info context = OracleException (err_message info) (Some info) context"

definition OracleException_context :: "string \<Rightarrow> OracleException" where
  "OracleException_context context = OracleException context None context"

text \<open>
  How a call of a wrapper can end other than by returning: it throws, the
  process aborts, or it reads through a null pointer (undefined in C++).
\<close>

datatype failure = Thrown OracleException | Aborted | NullDereference

record OracleContext =
  context_ctx :: ptr

definition OracleContext_getLastError :: "OracleContext \<Rightarrow> native \<Rightarrow> dpiErrorInfo \<times> native" where
  "OracleContext_getLastError c n = dpiContext_getError (context_ctx c) n"

definition checkErr_info :: "int \<Rightarrow> dpiErrorInfo \<Rightarrow> string \<Rightarrow> failure + unit" where
  "checkErr_info rc errInfo context =
     (if rc = DPI_SUCCESS then Inr () else Inl (Thrown (OracleException_info errInfo context)))"

definition checkErr_ctx ::
  "int \<Rightarrow> OracleContext option \<Rightarrow> string \<Rightarrow> native \<Rightarrow> (failure + unit) \<times> native" where
  "checkErr_ctx rc ctx context n =
     (if rc = DPI_SUCCESS then (Inr (), n)
      else case ctx of
        None \<Rightarrow> (Inl NullDereference, n)
      | Some c \<Rightarrow>
          (let (info, n1) = OracleContext_getLastError c n
           in (Inl (Thrown (OracleException_info info context)), n1)))"

definition checkErr_ok :: "bool \<Rightarrow> string \<Rightarrow> failure + unit" where
  "checkErr_ok ok context =
     (if \<not> ok then Inl (Thrown (OracleException_context context)) else Inr ())"

subsection \<open>OracleContext\<close>

definition OracleContext_dtor :: "driver \<Rightarrow> OracleContext \<Rightarrow> native \<Rightarrow> (failure + unit) \<times> native" where
  "OracleContext_dtor drv c n =
     (let (rc, n1) = dpiContext_destroy drv (context_ctx c) n
      in if rc \<noteq> DPI_SUCCESS then (Inl Aborted, n1) else (Inr (), n1))"

subsection \<open>OracleData\<close>

record OracleData =
  data_typeNum :: dpiNativeTypeNum
  data_data :: ptr

definition OracleData_default :: OracleData where
  "OracleData_default = \<lparr>data_typeNum = DPI_NATIVE_TYPE_NULL, data_data = None\<rparr>"

definition OracleData_ctor :: "dpiNativeTypeNum \<Rightarrow> ptr \<Rightarrow> OracleData" where
  "OracleData_ctor typeNum d = \<lparr>data_typeNum = typeNum, data_data = d\<rparr>"

text \<open>Reading the slot a cell points to.\<close>

definition deref :: "native \<Rightarrow> ptr \<Rightarrow> failure + dpiData" where
  "deref n p = (case p of None \<Rightarrow> Inl NullDereference | Some a \<Rightarrow> Inr (mem n a))"

definition OracleData_isNull :: "native \<Rightarrow> OracleData \<Rightarrow> failure + bool" where
  "OracleData_isNull n d =
     (case deref n (data_data d) of Inl f \<Rightarrow> Inl f | Inr s \<Rightarrow> Inr (isNull s \<noteq> 0))"

definition OracleData_nativeType :: "OracleData \<Rightarrow> dpiNativeTypeNum" where
  "OracleData_nativeType d = data_typeNum d"

definition as_bool :: "native \<Rightarrow> OracleData \<Rightarrow> failure + bool" where
  "as_bool n d =
     (case checkErr_ok (data_typeNum d = DPI_NATIVE_TYPE_BOOLEAN) ''value for column is not bool'' of
        Inl f \<Rightarrow> Inl f
      | Inr _ \<Rightarrow> (case deref n (data_data d) of Inl f \<Rightarrow> Inl f | Inr s \<Rightarrow> Inr (asBoolean (val s) \<noteq> 0)))"

definition as_int64_t :: "native \<Rightarrow> OracleData \<Rightarrow> failure + 64 word" where
  "as_int64_t n d =
     (case checkErr_ok (data_typeNum d = DPI_NATIVE_TYPE_INT64) ''value for column is not int64_t'' of
        Inl f \<Rightarrow> Inl f
      | Inr _ \<Rightarrow> (case deref n (data_data d) of Inl f \<Rightarrow> Inl f | Inr s \<Rightarrow> Inr (asInt64 (val s))))"

definition as_uint64_t :: "native \<Rightarrow> OracleData \<Rightarrow> failure + 64 word" where
  "as_uint64_t n d =
     (case checkErr_ok (data_typeNum d = DPI_NATIVE_TYPE_INT64) ''value for column is not uint64_t'' of
        Inl f \<Rightarrow> Inl f
      | Inr _ \<Rightarrow> (case deref n (data_data d) of Inl f \<Rightarrow> Inl f | Inr s \<Rightarrow> Inr (asUint64 (val s))))"

definition as_float :: "native \<Rightarrow> OracleData \<Rightarrow> failure + 32 word" where
  "as_float n d =
     (case checkErr_ok (data_typeNum d = DPI_NATIVE_TYPE_FLOAT) ''value for column is not float'' of
        Inl f \<Rightarrow> Inl f
      | Inr _ \<Rightarrow> (case deref n (data_data d) of Inl f \<Rightarrow> Inl f | Inr s \<Rightarrow> Inr (asFloat (val s))))"

definition as_double :: "native \<Rightarrow> OracleData \<Rightarrow> failure + 64 word" where
  "as_double n d =
     (case checkErr_ok (data_typeNum d = DPI_NATIVE_TYPE_DOUBLE) ''value for column is not double'' of
        Inl f \<Rightarrow> Inl f
      | Inr _ \<Rightarrow> (case deref n (data_data d) of Inl f \<Rightarrow> Inl f | Inr s \<Rightarrow> Inr (asDouble (val s))))"

definition as_dpiTimestamp :: "native \<Rightarrow> OracleData \<Rightarrow> failure + dpiTimestamp" where
  "as_dpiTimestamp n d =
     (case checkErr_ok (data_typeNum d = DPI_NATIVE_TYPE_TIMESTAMP) ''value for column is not timestamp'' of
        Inl f \<Rightarrow> Inl f
      | Inr _ \<Rightarrow> (case deref n (data_data d) of Inl f \<Rightarrow> Inl f | Inr s \<Rightarrow> Inr (asTimestamp (val s))))"

definition as_string_view :: "native \<Rightarrow> OracleData \<Rightarrow> failure + string" where
  "as_string_view n d =
     (case checkErr_ok (data_typeNum d = DPI_NATIVE_TYPE_BYTES) ''value for column is not bytes'' of
        Inl f \<Rightarrow> Inl f
      | Inr _ \<Rightarrow> (case deref n (data_data d) of Inl f \<Rightarrow> Inl f | Inr s \<Rightarrow> Inr (asBytes (val s))))"

text \<open>
  The tag a caller has to find in a cell before it asks for each type: the
  dispatch of \<^verbatim>\<open>fetchAndPrintResults\<close> (main.cpp), one \<^verbatim>\<open>case\<close> per accessor.
\<close>

datatype accessor = T_bool | T_int64_t | T_uint64_t | T_float | T_double | T_dpiTimestamp | T_string_view

fun dispatched_tag :: "accessor \<Rightarrow> dpiNativeTypeNum" where
  "dispatched_tag T_bool = DPI_NATIVE_TYPE_BOOLEAN"
| "dispatched_tag T_string_view = DPI_NATIVE_TYPE_BYTES"
| "dispatched_tag T_double = DPI_NATIVE_TYPE_DOUBLE"
| "dispatched_tag T_int64_t = DPI_NATIVE_TYPE_INT64"
| "dispatched_tag T_uint64_t = DPI_NATIVE_TYPE_UINT64"
| "dispatched_tag T_float = DPI_NATIVE_TYPE_FLOAT"
| "dispatched_tag T_dpiTimestamp = DPI_NATIVE_TYPE_TIMESTAMP"

text \<open>Whether \<^verbatim>\<open>as<T>()\<close> returns (rather than throws) on a cell.\<close>

fun as_returns :: "accessor \<Rightarrow> native \<Rightarrow> OracleData \<Rightarrow> bool" where
  "as_returns T_bool n d = (\<not> isl (as_bool n d))"
| "as_returns T_int64_t n d = (\<not> isl (as_int64_t n d))"
| "as_returns T_uint64_t n d = (\<not> isl (as_uint64_t n d))"
| "as_returns T_float n d = (\<not> isl (as_float n d))"
| "as_returns T_double n d = (\<not> isl (as_double n d))"
| "as_returns T_dpiTimestamp n d = (\<not> isl (as_dpiTimestamp n d))"
| "as_returns T_string_view n d = (\<not> isl (as_string_view n d))"

subsection \<open>OracleVariable\<close>

record OracleVariable =
  var_ctx :: "OracleContext option"
  var_nativeType :: dpiNativeTypeNum
  var_var :: ptr
  var_allocatedData :: "OracleData list"

definition OracleVariable_ctor ::
  "OracleContext option \<Rightarrow> dpiNativeTypeNum \<Rightarrow> ptr \<Rightarrow> OracleData list \<Rightarrow> OracleVariable" where
  "OracleVariable_ctor ctx nativeType var allocatedData =
     \<lparr>var_ctx = ctx, var_nativeType = nativeType, var_var = var, var_allocatedData = allocatedData\<rparr>"

definition OracleVariable_setFrom ::
  "driver \<Rightarrow> OracleVariable \<Rightarrow> 32 word \<Rightarrow> string \<Rightarrow> native \<Rightarrow> (failure + unit) \<times> native" where
  "OracleVariable_setFrom drv v pos value n =
     (if length value \<ge> 1073741822
      then (Inl (Thrown (OracleException_context
              ''cannot set oracle variable from string variable longer than 1GB'')), n)
      else
        (let (rc, n1) = dpiVar_setFromBytes drv (var_var v) pos value (word_of_nat (length value)) n
         in checkErr_ctx rc (var_ctx v) ''copying from string data to variable'' n1))"

definition ptr_add :: "ptr \<Rightarrow> nat \<Rightarrow> ptr" where
  "ptr_add p i = map_option (\<lambda>a. a + i) p"

definition OracleVariable_returnedData ::
  "driver \<Rightarrow> OracleVariable \<Rightarrow> 32 word \<Rightarrow> native \<Rightarrow> (failure + OracleData list) \<times> native" where
  "OracleVariable_returnedData drv v pos n =
     (let ((rc, numElements, d), n1) = dpiVar_getReturnedData drv (var_var v) pos n;
          (r, n2) = checkErr_ctx rc (var_ctx v) ''getting returned data from oracle variable'' n1
      in case r of
           Inl f \<Rightarrow> (Inl f, n2)
         | Inr _ \<Rightarrow>
             (Inr (map (\<lambda>idx. OracleData_ctor (var_nativeType v) (ptr_add d idx)) [0..<unat numElements]),
              n2))"

definition OracleVariable_allocatedData :: "OracleVariable \<Rightarrow> OracleData list" where
  "OracleVariable_allocatedData v = var_allocatedData v"

subsection \<open>OracleConnection\<close>

record OracleConnection =
  conn_ctx :: "OracleContext option"
  conn_conn :: ptr

datatype VariableOpts_variant =
  ByteBufferOpts (bb_size: "32 word") (bb_sizeIsBytes: bool)
  | ObjectOpts (ob_objType: ptr)

record VariableOpts =
  dbTypeNum :: dpiOracleTypeNum
  nativeTypeNum :: dpiNativeTypeNum
  maxArraySize :: "32 word"
  isArray :: bool
  opts :: VariableOpts_variant

definition OracleConnection_newArrayVariable ::
  "driver \<Rightarrow> OracleConnection \<Rightarrow> VariableOpts \<Rightarrow> native \<Rightarrow> (failure + OracleVariable) \<times> native" where
  "OracleConnection_newArrayVariable drv c vo n =
     (let (objType, sz, sizeIsBytes) =
            (case opts vo of
               ByteBufferOpts s b \<Rightarrow> (None, s, if b then 1 else 0)
             | ObjectOpts t \<Rightarrow> (t, 0, 0));
          ((rc, var, d), n1) =
            dpiConn_newVar drv (conn_conn c) (dbTypeNum vo) (nativeTypeNum vo) (maxArraySize vo)
              sz sizeIsBytes (isArray vo) objType n;
          (r, n2) = checkErr_ctx rc (conn_ctx c) ''error creating oracle varaible'' n1
      in case r of
           Inl f \<Rightarrow> (Inl f, n2)
         | Inr _ \<Rightarrow>
             (let dataVec =
                    map (\<lambda>idx. OracleData_ctor (nativeTypeNum vo) (ptr_add d idx))
                      [0..<unat (maxArraySize vo)]
              in (Inr (OracleVariable_ctor (conn_ctx c) (nativeTypeNum vo) var dataVec), n2)))"

subsection \<open>OracleStatement\<close>

record OracleStatement =
  stmt_ctx :: "OracleContext option"
  stmt_statement :: ptr

definition OracleStatement_execute ::
  "driver \<Rightarrow> OracleStatement \<Rightarrow> native \<Rightarrow> (failure + unit) \<times> native" where
  "OracleStatement_execute drv s n =
     (let (rc, n1) = dpiStmt_execute drv (stmt_statement s) n
      in checkErr_ctx rc (stmt_ctx s) ''error executing oracle statement'' n1)"

definition OracleStatement_fetch ::
  "driver \<Rightarrow> OracleStatement \<Rightarrow> native \<Rightarrow> (failure + bool) \<times> native" where
  "OracleStatement_fetch drv s n =
     (let ((rc, found), n1) = dpiStmt_fetch drv (stmt_statement s) n;
          (r, n2) = checkErr_ctx rc (stmt_ctx s) ''error fetching row from oracle statement'' n1
      in case r of
           Inl f \<Rightarrow> (Inl f, n2)
         | Inr _ \<Rightarrow> (Inr (found \<noteq> 0), n2))"

text \<open>The results of \<open>k\<close> calls of \<^verbatim>\<open>fetch()\<close> in a row, with nothing in between.\<close>

fun fetches :: "driver \<Rightarrow> OracleStatement \<Rightarrow> nat \<Rightarrow> native \<Rightarrow> (failure + bool) list" where
  "fetches drv s 0 n = []"
| "fetches drv s (Suc k) n =
     (let (r, n1) = OracleStatement_fetch drv s n in r # fetches drv s k n1)"

subsection \<open>OracleRowId\<close>

record OracleRowId =
  rowid_rowId :: ptr
  rowid_strValue :: string


section \<open>Copy, move, assignment and destruction of the handles\<close>

text \<open>
  An assignment \<^verbatim>\<open>a = a\<close> or \<^verbatim>\<open>a = std::move(a)\<close> passes the same object as
  \<^verbatim>\<open>this\<close> and as \<^verbatim>\<open>other\<close>, so the special member functions are modelled on
  a store of objects: a list, an object being its index. Each function reads
  and writes the fields of \<^verbatim>\<open>this\<close> and \<^verbatim>\<open>other\<close> through the store, statement
  by statement as the source does. A constructor adds the new object at the end
  of the store. A destructor leaves the store alone (the object's storage is
  gone after it) and returns the driver's state.
\<close>

subsection \<open>OracleRowId\<close>

definition OracleRowId_initStrValue ::
  "nat \<Rightarrow> OracleRowId list \<times> native \<Rightarrow> OracleRowId list \<times> native" where
  "OracleRowId_initStrValue this s =
     (let (os, n) = s;
          (strValue, n1) = dpiRowid_getStringValue (rowid_rowId (os ! this)) n
      in (os[this := (os ! this)\<lparr>rowid_strValue := strValue\<rparr>], n1))"

definition OracleRowId_copy_ctor ::
  "nat \<Rightarrow> OracleRowId list \<times> native \<Rightarrow> OracleRowId list \<times> native" where
  "OracleRowId_copy_ctor other s =
     (let (os, n) = s;
          this = length os;
          os1 = os @ [\<lparr>rowid_rowId = rowid_rowId (os ! other), rowid_strValue = []\<rparr>];
          n1 = dpiRowid_addRef (rowid_rowId (os1 ! this)) n
      in OracleRowId_initStrValue this (os1, n1))"

definition OracleRowId_move_ctor ::
  "nat \<Rightarrow> OracleRowId list \<times> native \<Rightarrow> OracleRowId list \<times> native" where
  "OracleRowId_move_ctor other s =
     (let (os, n) = s;
          this = length os;
          os1 = os @ [\<lparr>rowid_rowId = rowid_rowId (os ! other), rowid_strValue = []\<rparr>];
          os2 = os1[other := (os1 ! other)\<lparr>rowid_rowId := None\<rparr>]
      in OracleRowId_initStrValue this (os2, n))"

definition OracleRowId_copy_assign ::
  "nat \<Rightarrow> nat \<Rightarrow> OracleRowId list \<times> native \<Rightarrow> OracleRowId list \<times> native" where
  "OracleRowId_copy_assign this other s =
     (let (os, n) = s;
          n1 = (if rowid_rowId (os ! this) \<noteq> None
                then dpiRowid_release (rowid_rowId (os ! this)) n else n);
          os1 = os[this := (os ! this)\<lparr>rowid_rowId := rowid_rowId (os ! other)\<rparr>];
          n2 = dpiRowid_addRef (rowid_rowId (os1 ! this)) n1
      in OracleRowId_initStrValue this (os1, n2))"

definition OracleRowId_move_assign ::
  "nat \<Rightarrow> nat \<Rightarrow> OracleRowId list \<times> native \<Rightarrow> OracleRowId list \<times> native" where
  "OracleRowId_move_assign this other s =
     (let (os, n) = s;
          (os1, n1) =
            (if rowid_rowId (os ! this) \<noteq> None
             then (os[this := (os ! this)\<lparr>rowid_rowId := None\<rparr>],
                   dpiRowid_release (rowid_rowId (os ! this)) n)
             else (os, n));
          a = rowid_rowId (os1 ! this);
          b = rowid_rowId (os1 ! other);
          os2 = os1[this := (os1 ! this)\<lparr>rowid_rowId := b\<rparr>];
          os3 = os2[other := (os2 ! other)\<lparr>rowid_rowId := a\<rparr>]
      in OracleRowId_initStrValue this (os3, n1))"

definition OracleRowId_dtor :: "nat \<Rightarrow> OracleRowId list \<times> native \<Rightarrow> native" where
  "OracleRowId_dtor this s =
     (let (os, n) = s
      in if rowid_rowId (os ! this) \<noteq> None
         then dpiRowid_release (rowid_rowId (os ! this)) n else n)"

subsection \<open>OracleVariable\<close>

text \<open>
  The copy and move constructors initialise \<^verbatim>\<open>_ctx\<close> and \<^verbatim>\<open>_var\<close> only.
  \<^verbatim>\<open>_allocatedData\<close> is default-constructed (empty); \<^verbatim>\<open>_nativeType\<close> has no
  initialiser and holds whatever its storage held, the parameter \<open>junk\<close>.
\<close>

definition OracleVariable_copy_ctor ::
  "dpiNativeTypeNum \<Rightarrow> nat \<Rightarrow> OracleVariable list \<times> native \<Rightarrow> OracleVariable list \<times> native" where
  "OracleVariable_copy_ctor junk other s =
     (let (os, n) = s;
          this = length os;
          os1 = os @ [\<lparr>var_ctx = var_ctx (os ! other), var_nativeType = junk,
                       var_var = var_var (os ! other), var_allocatedData = []\<rparr>];
          n1 = dpiVar_addRef (var_var (os1 ! this)) n
      in (os1, n1))"

definition OracleVariable_move_ctor ::
  "dpiNativeTypeNum \<Rightarrow> nat \<Rightarrow> OracleVariable list \<times> native \<Rightarrow> OracleVariable list \<times> native" where
  "OracleVariable_move_ctor junk other s =
     (let (os, n) = s;
          os1 = os @ [\<lparr>var_ctx = var_ctx (os ! other), var_nativeType = junk,
                       var_var = var_var (os ! other), var_allocatedData = []\<rparr>];
          os2 = os1[other := (os1 ! other)\<lparr>var_var := None\<rparr>]
      in (os2, n))"

definition OracleVariable_copy_assign ::
  "nat \<Rightarrow> nat \<Rightarrow> OracleVariable list \<times> native \<Rightarrow> OracleVariable list \<times> native" where
  "OracleVariable_copy_assign this other s =
     (let (os, n) = s;
          n1 = (if var_var (os ! this) \<noteq> None then dpiVar_release (var_var (os ! this)) n else n);
          os1 = os[this := (os ! this)\<lparr>var_ctx := var_ctx (os ! other)\<rparr>];
          os2 = os1[this := (os1 ! this)\<lparr>var_var := var_var (os1 ! other)\<rparr>];
          n2 = dpiVar_addRef (var_var (os2 ! this)) n1
      in (os2, n2))"

definition OracleVariable_move_assign ::
  "nat \<Rightarrow> nat \<Rightarrow> OracleVariable list \<times> native \<Rightarrow> OracleVariable list \<times> native" where
  "OracleVariable_move_assign this other s =
     (let (os, n) = s;
          (os1, n1) =
            (if var_var (os ! this) \<noteq> None
             then (os[this := (os ! this)\<lparr>var_var := None\<rparr>],
                   dpiVar_release (var_var (os ! this)) n)
             else (os, n));
          os2 = os1[this := (os1 ! this)\<lparr>var_ctx := var_ctx (os1 ! other)\<rparr>];
          a = var_var (os2 ! this);
          b = var_var (os2 ! other);
          os3 = os2[this := (os2 ! this)\<lparr>var_var := b\<rparr>];
          os4 = os3[other := (os3 ! other)\<lparr>var_var := a\<rparr>]
      in (os4, n1))"

definition OracleVariable_dtor :: "nat \<Rightarrow> OracleVariable list \<times> native \<Rightarrow> native" where
  "OracleVariable_dtor this s =
     (let (os, n) = s
      in if var_var (os ! this) \<noteq> None then dpiVar_release (var_var (os ! this)) n else n)"

subsection \<open>OracleConnection\<close>

definition OracleConnection_copy_ctor ::
  "nat \<Rightarrow> OracleConnection list \<times> native \<Rightarrow> OracleConnection list \<times> native" where
  "OracleConnection_copy_ctor other s =
     (let (os, n) = s;
          this = length os;
          os1 = os @ [\<lparr>conn_ctx = conn_ctx (os ! other), conn_conn = conn_conn (os ! other)\<rparr>];
          n1 = dpiConn_addRef (conn_conn (os1 ! this)) n
      in (os1, n1))"

definition OracleConnection_move_ctor ::
  "nat \<Rightarrow> OracleConnection list \<times> native \<Rightarrow> OracleConnection list \<times> native" where
  "OracleConnection_move_ctor other s =
     (let (os, n) = s;
          os1 = os @ [\<lparr>conn_ctx = conn_ctx (os ! other), conn_conn = conn_conn (os ! other)\<rparr>];
          os2 = os1[other := (os1 ! other)\<lparr>conn_conn := None\<rparr>];
          os3 = os2[other := (os2 ! other)\<lparr>conn_ctx := None\<rparr>]
      in (os3, n))"

definition OracleConnection_copy_assign ::
  "nat \<Rightarrow> nat \<Rightarrow> OracleConnection list \<times> native \<Rightarrow> OracleConnection list \<times> native" where
  "OracleConnection_copy_assign this other s =
     (let (os, n) = s;
          n1 = (if conn_conn (os ! this) \<noteq> None
                then dpiConn_release (conn_conn (os ! this)) n else n);
          os1 = os[this := (os ! this)\<lparr>conn_ctx := conn_ctx (os ! other)\<rparr>];
          os2 = os1[this := (os1 ! this)\<lparr>conn_conn := conn_conn (os1 ! other)\<rparr>];
          n2 = dpiConn_addRef (conn_conn (os2 ! this)) n1
      in (os2, n2))"

definition OracleConnection_move_assign ::
  "nat \<Rightarrow> nat \<Rightarrow> OracleConnection list \<times> native \<Rightarrow> OracleConnection list \<times> native" where
  "OracleConnection_move_assign this other s =
     (let (os, n) = s;
          (os1, n1) =
            (if conn_conn (os ! this) \<noteq> None
             then (os[this := (os ! this)\<lparr>conn_conn := None\<rparr>],
                   dpiConn_release (conn_conn (os ! this)) n)
             else (os, n));
          os2 = os1[this := (os1 ! this)\<lparr>conn_ctx := None\<rparr>];
          c = conn_ctx (os2 ! this);
          d = conn_ctx (os2 ! other);
          os3 = os2[this := (os2 ! this)\<lparr>conn_ctx := d\<rparr>];
          os4 = os3[other := (os3 ! other)\<lparr>conn_ctx := c\<rparr>];
          a = conn_conn (os4 ! this);
          b = conn_conn (os4 ! other);
          os5 = os4[this := (os4 ! this)\<lparr>conn_conn := b\<rparr>];
          os6 = os5[other := (os5 ! other)\<lparr>conn_conn := a\<rparr>]
      in (os6, n1))"

definition OracleConnection_dtor :: "nat \<Rightarrow> OracleConnection list \<times> native \<Rightarrow> native" where
  "OracleConnection_dtor this s =
     (let (os, n) = s
      in if conn_conn (os ! this) \<noteq> None then dpiConn_release (conn_conn (os ! this)) n else n)"

subsection \<open>OracleStatement\<close>

definition OracleStatement_copy_ctor ::
  "nat \<Rightarrow> OracleStatement list \<times> native \<Rightarrow> OracleStatement list \<times> native" where
  "OracleStatement_copy_ctor other s =
     (let (os, n) = s;
          this = length os;
          os1 = os @ [\<lparr>stmt_ctx = stmt_ctx (os ! other), stmt_statement = stmt_statement (os ! other)\<rparr>];
          n1 = dpiStmt_addRef (stmt_statement (os1 ! this)) n
      in (os1, n1))"

definition OracleStatement_move_ctor ::
  "nat \<Rightarrow> OracleStatement list \<times> native \<Rightarrow> OracleStatement list \<times> native" where
  "OracleStatement_move_ctor other s =
     (let (os, n) = s;
          os1 = os @ [\<lparr>stmt_ctx = stmt_ctx (os ! other), stmt_statement = stmt_statement (os ! other)\<rparr>];
          os2 = os1[other := (os1 ! other)\<lparr>stmt_statement := None\<rparr>];
          os3 = os2[other := (os2 ! other)\<lparr>stmt_ctx := None\<rparr>]
      in (os3, n))"

definition OracleStatement_copy_assign ::
  "nat \<Rightarrow> nat \<Rightarrow> OracleStatement list \<times> native \<Rightarrow> OracleStatement list \<times> native" where
  "OracleStatement_copy_assign this other s =
     (let (os, n) = s;
          n1 = (if stmt_statement (os ! this) \<noteq> None
                then dpiStmt_release (stmt_statement (os ! this)) n else n);
          os1 = os[this := (os ! this)\<lparr>stmt_ctx := stmt_ctx (os ! other)\<rparr>];
          os2 = os1[this := (os1 ! this)\<lparr>stmt_statement := stmt_statement (os1 ! other)\<rparr>];
          n2 = dpiStmt_addRef (stmt_statement (os2 ! this)) n1
      in (os2, n2))"

definition OracleStatement_move_assign ::
  "nat \<Rightarrow> nat \<Rightarrow> OracleStatement list \<times> native \<Rightarrow> OracleStatement list \<times> native" where
  "OracleStatement_move_assign this other s =
     (let (os, n) = s;
          (os1, n1) =
            (if stmt_statement (os ! this) \<noteq> None
             then (os[this := (os ! this)\<lparr>stmt_statement := None\<rparr>],
                   dpiStmt_release (stmt_statement (os ! this)) n)
             else (os, n));
          os2 = os1[this := (os1 ! this)\<lparr>stmt_ctx := None\<rparr>];
          c = stmt_ctx (os2 ! this);
          d = stmt_ctx (os2 ! other);
          os3 = os2[this := (os2 ! this)\<lparr>stmt_ctx := d\<rparr>];
          os4 = os3[other := (os3 ! other)\<lparr>stmt_ctx := c\<rparr>];
          a = stmt_statement (os4 ! this);
          b = stmt_statement (os4 ! other);
          os5 = os4[this := (os4 ! this)\<lparr>stmt_statement := b\<rparr>];
          os6 = os5[other := (os5 ! other)\<lparr>stmt_statement := a\<rparr>]
      in (os6, n1))"

definition OracleStatement_dtor :: "nat \<Rightarrow> OracleStatement list \<times> native \<Rightarrow> native" where
  "OracleStatement_dtor this s =
     (let (os, n) = s
      in if stmt_statement (os ! this) \<noteq> None
         then dpiStmt_release (stmt_statement (os ! this)) n else n)"

subsection \<open>Programs over one kind of handle\<close>

text \<open>
  The five special member functions of a handle type and the projection to
  its native pointer. The four handle types are the four values below. The
  uninitialised \<^verbatim>\<open>_nativeType\<close> of a copied variable plays no part in
  reference counting; one value \<open>junk\<close> stands for it in every construction
  of a program.
\<close>

record 'w handle_class =
  copy_ctor :: "nat \<Rightarrow> 'w list \<times> native \<Rightarrow> 'w list \<times> native"
  move_ctor :: "nat \<Rightarrow> 'w list \<times> native \<Rightarrow> 'w list \<times> native"
  copy_assign :: "nat \<Rightarrow> nat \<Rightarrow> 'w list \<times> native \<Rightarrow> 'w list \<times> native"
  move_assign :: "nat \<Rightarrow> nat \<Rightarrow> 'w list \<times> native \<Rightarrow> 'w list \<times> native"
  dtor :: "nat \<Rightarrow> 'w list \<times> native \<Rightarrow> native"
  handle_of :: "'w \<Rightarrow> ptr"

definition OracleRowId_class :: "OracleRowId handle_class" where
  "OracleRowId_class =
     \<lparr>copy_ctor = OracleRowId_copy_ctor, move_ctor = OracleRowId_move_ctor,
      copy_assign = OracleRowId_copy_assign, move_assign = OracleRowId_move_assign,
      dtor = OracleRowId_dtor, handle_of = rowid_rowId\<rparr>"

definition OracleVariable_class :: "dpiNativeTypeNum \<Rightarrow> OracleVariable handle_class" where
  "OracleVariable_class junk =
     \<lparr>copy_ctor = OracleVariable_copy_ctor junk, move_ctor = OracleVariable_move_ctor junk,
      copy_assign = OracleVariable_copy_assign, move_assign = OracleVariable_move_assign,
      dtor = OracleVariable_dtor, handle_of = var_var\<rparr>"

definition OracleConnection_class :: "OracleConnection handle_class" where
  "OracleConnection_class =
     \<lparr>copy_ctor = OracleConnection_copy_ctor, move_ctor = OracleConnection_move_ctor,
      copy_assign = OracleConnection_copy_assign, move_assign = OracleConnection_move_assign,
      dtor = OracleConnection_dtor, handle_of = conn_conn\<rparr>"

definition OracleStatement_class :: "OracleStatement handle_class" where
  "OracleStatement_class =
     \<lparr>copy_ctor = OracleStatement_copy_ctor, move_ctor = OracleStatement_move_ctor,
      copy_assign = OracleStatement_copy_assign, move_assign = OracleStatement_move_assign,
      dtor = OracleStatement_dtor, handle_of = stmt_statement\<rparr>"

text \<open>
  A program state: the objects created so far, which of them are still alive
  (not yet destroyed), and the driver's state.
\<close>

record 'w world =
  objs :: "'w list"
  alive :: "bool list"
  driver_state :: native

datatype handle_op =
  CopyConstruct nat
  | MoveConstruct nat
  | CopyAssign nat nat
  | MoveAssign nat nat
  | Destroy nat

text \<open>
  \<open>CopyConstruct j\<close> is \<^verbatim>\<open>T x(objs[j])\<close>, \<open>MoveConstruct j\<close> is
  \<^verbatim>\<open>T x(std::move(objs[j]))\<close>, \<open>CopyAssign i j\<close> is \<^verbatim>\<open>objs[i] = objs[j]\<close>,
  \<open>MoveAssign i j\<close> is \<^verbatim>\<open>objs[i] = std::move(objs[j])\<close> and \<open>Destroy i\<close> ends
  the lifetime of \<^verbatim>\<open>objs[i]\<close>. An operation is well-formed when the objects it
  names exist and are alive.
\<close>

definition usable :: "'w world \<Rightarrow> nat \<Rightarrow> bool" where
  "usable w i = (i < length (objs w) \<and> i < length (alive w) \<and> alive w ! i)"

fun op_ok :: "'w world \<Rightarrow> handle_op \<Rightarrow> bool" where
  "op_ok w (CopyConstruct j) = usable w j"
| "op_ok w (MoveConstruct j) = usable w j"
| "op_ok w (CopyAssign i j) = (usable w i \<and> usable w j)"
| "op_ok w (MoveAssign i j) = (usable w i \<and> usable w j)"
| "op_ok w (Destroy i) = usable w i"

fun exec :: "'w handle_class \<Rightarrow> handle_op \<Rightarrow> 'w world \<Rightarrow> 'w world" where
  "exec C (CopyConstruct j) w =
     (let (os, n) = copy_ctor C j (objs w, driver_state w)
      in \<lparr>objs = os, alive = alive w @ [True], driver_state = n\<rparr>)"
| "exec C (MoveConstruct j) w =
     (let (os, n) = move_ctor C j (objs w, driver_state w)
      in \<lparr>objs = os, alive = alive w @ [True], driver_state = n\<rparr>)"
| "exec C (CopyAssign i j) w =
     (let (os, n) = copy_assign C i j (objs w, driver_state w)
      in \<lparr>objs = os, alive = alive w, driver_state = n\<rparr>)"
| "exec C (MoveAssign i j) w =
     (let (os, n) = move_assign C i j (objs w, driver_state w)
      in \<lparr>objs = os, alive = alive w, driver_state = n\<rparr>)"
| "exec C (Destroy i) w =
     \<lparr>objs = objs w, alive = (alive w)[i := False],
      driver_state = dtor C i (objs w, driver_state w)\<rparr>"

text \<open>
  The one operation singled out below: a copy assignment of an object to
  itself while the object holds the only reference to its handle.
\<close>

fun sole_self_copy :: "'w handle_class \<Rightarrow> 'w world \<Rightarrow> handle_op \<Rightarrow> bool" where
  "sole_self_copy C w (CopyAssign i j) =
     (i = j \<and>
      (case handle_of C (objs w ! i) of
         None \<Rightarrow> False
       | Some p \<Rightarrow> refCount (driver_state w) p = 1))"
| "sole_self_copy C w (CopyConstruct j) = False"
| "sole_self_copy C w (MoveConstruct j) = False"
| "sole_self_copy C w (MoveAssign i j) = False"
| "sole_self_copy C w (Destroy i) = False"

text \<open>
  Running a sequence of operations: \<open>None\<close> when one of them is not
  well-formed where it stands or, with \<open>guarded\<close>, is a copy assignment of a
  sole owner to itself.
\<close>

fun run :: "bool \<Rightarrow> 'w handle_class \<Rightarrow> handle_op list \<Rightarrow> 'w world \<Rightarrow> 'w world option" where
  "run guarded C [] w = Some w"
| "run guarded C (x # xs) w =
     (if op_ok w x \<and> \<not> (guarded \<and> sole_self_copy C w x)
      then run guarded C xs (exec C x w) else None)"

definition owned :: "'w \<Rightarrow> native \<Rightarrow> 'w world" where
  "owned x n = \<lparr>objs = [x], alive = [True], driver_state = n\<rparr>"

text \<open>
  The objects seen as pointer and liveness, the number of objects alive and
  holding a handle, and the number of times the driver has freed it.
\<close>

definition view :: "'w handle_class \<Rightarrow> 'w world \<Rightarrow> (ptr \<times> bool) list" where
  "view C w = zip (map (handle_of C) (objs w)) (alive w)"

definition holders :: "'w handle_class \<Rightarrow> addr \<Rightarrow> 'w world \<Rightarrow> nat" where
  "holders C p w = count_list (view C w) (Some p, True)"

definition frees :: "native \<Rightarrow> addr \<Rightarrow> nat" where
  "frees n p = count_list (events n) (Freed p)"

subsection \<open>The handles as pointers only\<close>

text \<open>
  What the special member functions of all four types do to the pointers and
  the counts, with the other members left out. The four types are shown to
  act like this; the counting argument is then made once.
\<close>

record counts =
  held :: "(ptr \<times> bool) list"
  rc :: "addr \<Rightarrow> nat"
  fr :: "addr \<Rightarrow> nat"

definition rc_addRef :: "ptr \<Rightarrow> (addr \<Rightarrow> nat) \<Rightarrow> (addr \<Rightarrow> nat)" where
  "rc_addRef p c = (case p of None \<Rightarrow> c | Some a \<Rightarrow> if c a = 0 then c else c(a := c a + 1))"

definition rc_release :: "ptr \<Rightarrow> (addr \<Rightarrow> nat) \<Rightarrow> (addr \<Rightarrow> nat)" where
  "rc_release p c = (case p of None \<Rightarrow> c | Some a \<Rightarrow> if c a = 0 then c else c(a := c a - 1))"

definition fr_release :: "ptr \<Rightarrow> (addr \<Rightarrow> nat) \<Rightarrow> (addr \<Rightarrow> nat) \<Rightarrow> (addr \<Rightarrow> nat)" where
  "fr_release p c f = (case p of None \<Rightarrow> f | Some a \<Rightarrow> if c a = 1 then f(a := f a + 1) else f)"

fun aexec :: "handle_op \<Rightarrow> counts \<Rightarrow> counts" where
  "aexec (CopyConstruct j) s =
     \<lparr>held = held s @ [(fst (held s ! j), True)],
      rc = rc_addRef (fst (held s ! j)) (rc s), fr = fr s\<rparr>"
| "aexec (MoveConstruct j) s =
     \<lparr>held = (held s)[j := (None, snd (held s ! j))] @ [(fst (held s ! j), True)],
      rc = rc s, fr = fr s\<rparr>"
| "aexec (CopyAssign i j) s =
     \<lparr>held = (held s)[i := (fst (held s ! j), snd (held s ! i))],
      rc = rc_addRef (fst (held s ! j)) (rc_release (fst (held s ! i)) (rc s)),
      fr = fr_release (fst (held s ! i)) (rc s) (fr s)\<rparr>"
| "aexec (MoveAssign i j) s =
     \<lparr>held = (held s)[i := (fst (held s ! j), snd (held s ! i)), j := (None, snd (held s ! j))],
      rc = rc_release (fst (held s ! i)) (rc s),
      fr = fr_release (fst (held s ! i)) (rc s) (fr s)\<rparr>"
| "aexec (Destroy i) s =
     \<lparr>held = (held s)[i := (fst (held s ! i), False)],
      rc = rc_release (fst (held s ! i)) (rc s),
      fr = fr_release (fst (held s ! i)) (rc s) (fr s)\<rparr>"

definition abstract :: "'w handle_class \<Rightarrow> 'w world \<Rightarrow> counts" where
  "abstract C w =
     \<lparr>held = view C w, rc = refCount (driver_state w), fr = frees (driver_state w)\<rparr>"

text \<open>
  The reference-counting part of the record of native calls, and what a
  \<^verbatim>\<open>release\<close> of a pointer adds to it.
\<close>

fun is_count_event :: "dpi_event \<Rightarrow> bool" where
  "is_count_event (AddRef p) = True"
| "is_count_event (Release p) = True"
| "is_count_event (Freed a) = True"
| "is_count_event (Rowid_getStringValue p) = False"
| "is_count_event (Var_setFromBytes v pos bytes len) = False"
| "is_count_event (Var_getReturnedData v pos) = False"
| "is_count_event (Conn_newVar c t u m s b a objType) = False"
| "is_count_event (Stmt_execute s) = False"
| "is_count_event (Stmt_fetch s) = False"
| "is_count_event (Context_getError c) = False"
| "is_count_event (Context_destroy c) = False"

definition count_events :: "native \<Rightarrow> dpi_event list" where
  "count_events n = filter is_count_event (events n)"

definition release_events :: "ptr \<Rightarrow> native \<Rightarrow> dpi_event list" where
  "release_events p n =
     (case p of
        None \<Rightarrow> []
      | Some a \<Rightarrow> Release (Some a) # (if refCount n a = 1 then [Freed a] else []))"

text \<open>
  What it takes for a handle type to act on pointers and counts as \<open>aexec\<close>
  says: the effect of each special member function on the objects' pointers,
  on the reference counts, on the number of frees and on the
  reference-counting calls made.
\<close>

definition handle_laws :: "'w handle_class \<Rightarrow> bool" where
  "handle_laws C =
    ((\<forall>os n j. j < length os \<longrightarrow>
        map (handle_of C) (fst (copy_ctor C j (os, n))) = map (handle_of C) os @ [handle_of C (os ! j)]
        \<and> refCount (snd (copy_ctor C j (os, n))) = rc_addRef (handle_of C (os ! j)) (refCount n)
        \<and> frees (snd (copy_ctor C j (os, n))) = frees n
        \<and> count_events (snd (copy_ctor C j (os, n))) = count_events n @ [AddRef (handle_of C (os ! j))])
   \<and> (\<forall>os n j. j < length os \<longrightarrow>
        map (handle_of C) (fst (move_ctor C j (os, n))) =
          (map (handle_of C) os)[j := None] @ [handle_of C (os ! j)]
        \<and> refCount (snd (move_ctor C j (os, n))) = refCount n
        \<and> frees (snd (move_ctor C j (os, n))) = frees n
        \<and> count_events (snd (move_ctor C j (os, n))) = count_events n)
   \<and> (\<forall>os n i j. i < length os \<longrightarrow> j < length os \<longrightarrow>
        map (handle_of C) (fst (copy_assign C i j (os, n))) =
          (map (handle_of C) os)[i := handle_of C (os ! j)]
        \<and> refCount (snd (copy_assign C i j (os, n))) =
            rc_addRef (handle_of C (os ! j)) (rc_release (handle_of C (os ! i)) (refCount n))
        \<and> frees (snd (copy_assign C i j (os, n))) =
            fr_release (handle_of C (os ! i)) (refCount n) (frees n)
        \<and> count_events (snd (copy_assign C i j (os, n))) =
            count_events n @ release_events (handle_of C (os ! i)) n @ [AddRef (handle_of C (os ! j))])
   \<and> (\<forall>os n i j. i < length os \<longrightarrow> j < length os \<longrightarrow>
        map (handle_of C) (fst (move_assign C i j (os, n))) =
          (map (handle_of C) os)[i := handle_of C (os ! j), j := None]
        \<and> refCount (snd (move_assign C i j (os, n))) = rc_release (handle_of C (os ! i)) (refCount n)
        \<and> frees (snd (move_assign C i j (os, n))) =
            fr_release (handle_of C (os ! i)) (refCount n) (frees n)
        \<and> count_events (snd (move_assign C i j (os, n))) =
            count_events n @ release_events (handle_of C (os ! i)) n)
   \<and> (\<forall>os n i. i < length os \<longrightarrow>
        refCount (dtor C i (os, n)) = rc_release (handle_of C (os ! i)) (refCount n)
        \<and> frees (dtor C i (os, n)) = fr_release (handle_of C (os ! i)) (refCount n) (frees n)
        \<and> count_events (dtor C i (os, n)) = count_events n @ release_events (handle_of C (os ! i)) n
        \<and> (handle_of C (os ! i) = None \<longrightarrow> dtor C i (os, n) = n)))"

definition ausable :: "counts \<Rightarrow> nat \<Rightarrow> bool" where
  "ausable s i = (i < length (held s) \<and> snd (held s ! i))"

fun aop_ok :: "counts \<Rightarrow> handle_op \<Rightarrow> bool" where
  "aop_ok s (CopyConstruct j) = ausable s j"
| "aop_ok s (MoveConstruct j) = ausable s j"
| "aop_ok s (CopyAssign i j) = (ausable s i \<and> ausable s j)"
| "aop_ok s (MoveAssign i j) = (ausable s i \<and> ausable s j)"
| "aop_ok s (Destroy i) = ausable s i"

fun asole :: "counts \<Rightarrow> handle_op \<Rightarrow> bool" where
  "asole s (CopyAssign i j) =
     (i = j \<and> (case fst (held s ! i) of None \<Rightarrow> False | Some p \<Rightarrow> rc s p = 1))"
| "asole s (CopyConstruct j) = False"
| "asole s (MoveConstruct j) = False"
| "asole s (MoveAssign i j) = False"
| "asole s (Destroy i) = False"

definition balanced :: "addr \<Rightarrow> counts \<Rightarrow> bool" where
  "balanced p s =
     (rc s p = count_list (held s) (Some p, True) \<and> fr s p = (if rc s p = 0 then 1 else 0))"

subsection \<open>Counting the owners of one handle\<close>

text \<open>
  A program starts from one object that owns the handle \<open>p\<close>: the handle has
  one reference and has not been freed. \<open>counts_agree\<close> says that the
  reference count of \<open>p\<close> is the number of objects that are alive and hold
  \<open>p\<close>, and that the driver has freed \<open>p\<close> once if the count is zero and not
  at all otherwise. The three \<open>effects\<close> say what one more operation does
  from the state reached.
\<close>

definition starts_owned :: "'w handle_class \<Rightarrow> addr \<Rightarrow> 'w \<Rightarrow> native \<Rightarrow> bool" where
  "starts_owned C p x n = (handle_of C x = Some p \<and> refCount n p = 1 \<and> frees n p = 0)"

definition counts_agree :: "'w handle_class \<Rightarrow> addr \<Rightarrow> 'w world \<Rightarrow> bool" where
  "counts_agree C p w =
     (refCount (driver_state w) p = holders C p w
      \<and> frees (driver_state w) p = (if refCount (driver_state w) p = 0 then 1 else 0))"

definition construct_effects :: "'w handle_class \<Rightarrow> addr \<Rightarrow> 'w world \<Rightarrow> bool" where
  "construct_effects C p w =
     (\<forall>j. usable w j \<longrightarrow>
        (handle_of C (objs w ! j) = Some p \<longrightarrow>
           refCount (driver_state (exec C (CopyConstruct j) w)) p = refCount (driver_state w) p + 1
           \<and> handle_of C (last (objs (exec C (CopyConstruct j) w))) = Some p)
        \<and> refCount (driver_state (exec C (MoveConstruct j) w)) = refCount (driver_state w)
        \<and> count_events (driver_state (exec C (MoveConstruct j) w)) = count_events (driver_state w)
        \<and> handle_of C (objs (exec C (MoveConstruct j) w) ! j) = None
        \<and> handle_of C (last (objs (exec C (MoveConstruct j) w))) = handle_of C (objs w ! j))"

definition assign_effects :: "'w handle_class \<Rightarrow> 'w world \<Rightarrow> bool" where
  "assign_effects C w =
     (\<forall>i j. usable w i \<and> usable w j \<longrightarrow>
        count_events (driver_state (exec C (CopyAssign i j) w)) =
          count_events (driver_state w)
          @ release_events (handle_of C (objs w ! i)) (driver_state w)
          @ [AddRef (handle_of C (objs w ! j))]
        \<and> handle_of C (objs (exec C (CopyAssign i j) w) ! i) = handle_of C (objs w ! j)
        \<and> count_events (driver_state (exec C (MoveAssign i j) w)) =
          count_events (driver_state w)
          @ release_events (handle_of C (objs w ! i)) (driver_state w)
        \<and> handle_of C (objs (exec C (MoveAssign i j) w) ! j) = None
        \<and> (i \<noteq> j \<longrightarrow> handle_of C (objs (exec C (MoveAssign i j) w) ! i) = handle_of C (objs w ! j)))"

definition destroy_effects :: "'w handle_class \<Rightarrow> addr \<Rightarrow> 'w world \<Rightarrow> bool" where
  "destroy_effects C p w =
     (\<forall>i. usable w i \<longrightarrow>
        (handle_of C (objs w ! i) = Some p \<longrightarrow>
           refCount (driver_state (exec C (Destroy i) w)) p + 1 = refCount (driver_state w) p)
        \<and> (handle_of C (objs w ! i) = None \<longrightarrow>
           driver_state (exec C (Destroy i) w) = driver_state w))"

definition counted :: "'w handle_class \<Rightarrow> addr \<Rightarrow> 'w world \<Rightarrow> bool" where
  "counted C p w =
     (counts_agree C p w \<and> construct_effects C p w \<and> assign_effects C w \<and> destroy_effects C p w)"

text \<open>
  What a copy assignment of an object to itself does when the object holds
  the only reference to its handle.
\<close>

definition self_copy_frees :: "'w handle_class \<Rightarrow> 'w world \<Rightarrow> bool" where
  "self_copy_frees C w =
     (\<forall>i p. usable w i \<and> handle_of C (objs w ! i) = Some p \<and> refCount (driver_state w) p = 1 \<longrightarrow>
        count_events (driver_state (exec C (CopyAssign i i) w)) =
          count_events (driver_state w) @ [Release (Some p), Freed p, AddRef (Some p)]
        \<and> refCount (driver_state (exec C (CopyAssign i i) w)) p = 0
        \<and> usable (exec C (CopyAssign i i) w) i
        \<and> handle_of C (objs (exec C (CopyAssign i i) w) ! i) = Some p)"

text \<open>
  The text the driver reports for a row id pointer: what
  \<^verbatim>\<open>dpiRowid_getStringValue\<close> writes to its output parameters.
\<close>

definition text_of :: "native \<Rightarrow> ptr \<Rightarrow> string" where
  "text_of n p = fst (dpiRowid_getStringValue p n)"

section \<open>Example worlds\<close>

text \<open>
  A driver state with no handles and no calls yet, a driver that accepts every
  call, and one that rejects every call. The theorems below are instantiated
  on them.
\<close>

definition no_timestamp :: dpiTimestamp where
  "no_timestamp =
     \<lparr>year = 0, month = 0, day = 0, hour = 0, minute = 0, second = 0, fsecond = 0,
      tzHourOffset = 0, tzMinuteOffset = 0\<rparr>"

definition blank_slot :: dpiData where
  "blank_slot =
     \<lparr>isNull = 0,
      val = \<lparr>asBoolean = 0, asInt64 = 0, asUint64 = 0, asFloat = 0, asDouble = 0,
             asTimestamp = no_timestamp, asBytes = []\<rparr>\<rparr>"

definition native0 :: native where
  "native0 =
     \<lparr>refCount = (\<lambda>_. 0), events = [], mem = (\<lambda>_. blank_slot), varSlots = (\<lambda>_. 0),
      rowidText = (\<lambda>_. []), lastError = \<lparr>err_code = 0, err_message = []\<rparr>,
      cursor = (\<lambda>_. None)\<rparr>"

definition accepting :: driver where
  "accepting =
     \<lparr>rc_of = (\<lambda>_ _. 0), newVar_out = (\<lambda>_. (1, 100)),
      returnedData_out = (\<lambda>_ _ _. (2, 200)), resultRows = (\<lambda>_ _. 1)\<rparr>"

definition rejecting :: driver where
  "rejecting =
     \<lparr>rc_of = (\<lambda>_ _. - 1), newVar_out = (\<lambda>_. (1, 100)),
      returnedData_out = (\<lambda>_ _ _. (2, 200)), resultRows = (\<lambda>_ _. 1)\<rparr>"

definition ctx0 :: OracleContext where
  "ctx0 = \<lparr>context_ctx = Some 7\<rparr>"

definition stmt0 :: OracleStatement where
  "stmt0 = \<lparr>stmt_ctx = Some ctx0, stmt_statement = Some 3\<rparr>"

definition conn0 :: OracleConnection where
  "conn0 = \<lparr>conn_ctx = Some ctx0, conn_conn = Some 2\<rparr>"

definition bytes_opts :: VariableOpts where
  "bytes_opts =
     \<lparr>dbTypeNum = DPI_ORACLE_TYPE_CHAR, nativeTypeNum = DPI_NATIVE_TYPE_BYTES, maxArraySize = 2,
      isArray = False, opts = ByteBufferOpts 3 False\<rparr>"

text \<open>
  A driver state in which handle 1 has one reference, one owning object of
  each handle type, and a program over them.
\<close>

definition native1 :: native where
  "native1 = native0\<lparr>refCount := (\<lambda>a. if a = 1 then 1 else 0), rowidText := (\<lambda>_. ''AAAWjZAAEAAAAM9AAA'')\<rparr>"

definition var1 :: OracleVariable where
  "var1 = OracleVariable_ctor (Some ctx0) DPI_NATIVE_TYPE_BYTES (Some 1)
     [OracleData_ctor DPI_NATIVE_TYPE_BYTES (Some 100)]"

definition conn1 :: OracleConnection where
  "conn1 = \<lparr>conn_ctx = Some ctx0, conn_conn = Some 1\<rparr>"

definition stmt1 :: OracleStatement where
  "stmt1 = \<lparr>stmt_ctx = Some ctx0, stmt_statement = Some 1\<rparr>"

definition rowid1 :: OracleRowId where
  "rowid1 = \<lparr>rowid_rowId = Some 1, rowid_strValue = ''AAAWjZAAEAAAAM9AAA''\<rparr>"

definition example_ops :: "handle_op list" where
  "example_ops =
     [CopyConstruct 0, MoveConstruct 1, CopyAssign 1 0, MoveAssign 0 2, Destroy 2,
      CopyAssign 0 0, Destroy 0, Destroy 1]"



definition var2 :: OracleVariable where
  "var2 = OracleVariable_ctor (Some ctx0) DPI_NATIVE_TYPE_INT64 (Some 2) []"


section \<open>Properties of the table\<close>

subsection \<open>The running minimum never leaves zero\<close>

lemma all_min_zero_ctor: "all_min_zero (Table_ctor k)"
  by (simp add: all_min_zero_def Table_ctor_def default_Column_def list_all_iff)

lemma all_min_zero_addRow: "all_min_zero t \<Longrightarrow> all_min_zero (snd (addRow t))"
  by (simp add: all_min_zero_def addRow_def Let_def)

lemma all_min_zero_setColumnValue:
  assumes "all_min_zero t"
  shows "all_min_zero (snd (setColumnValue t row column v))"
proof -
  have zero: "\<And>c. c \<in> set (columns t) \<Longrightarrow> minValueWidth c = 0"
    using assms by (simp add: all_min_zero_def list_all_iff)
  show ?thesis
  proof (cases "fst (setColumnValue t row column v)")
    case (Some e)
    then have "snd (setColumnValue t row column v) = t"
      by (auto simp: setColumnValue_def Let_def split: if_splits sum.splits)
    then show ?thesis using assms by simp
  next
    case None
    then have inr: "unat column < length (columns t)"
      by (auto simp: setColumnValue_def Let_def split: if_splits sum.splits)
    from None obtain c' where
      cols: "columns (snd (setColumnValue t row column v)) = (columns t)[unat column := c']"
      and c': "minValueWidth c' = min (minValueWidth (columns t ! unat column)) (word_of_nat (length v))"
      by (auto simp: setColumnValue_def Let_def split: if_splits sum.splits)
    have "minValueWidth (columns t ! unat column) = 0"
      using zero inr by simp
    then have "minValueWidth c' = 0"
      using c' by (simp add: min_def)
    then have "\<And>c. c \<in> set ((columns t)[unat column := c']) \<Longrightarrow> minValueWidth c = 0"
      using zero by (auto dest!: set_update_subset_insert [THEN subsetD])
    then show ?thesis
      by (simp add: all_min_zero_def list_all_iff cols)
  qed
qed

lemma all_min_zero_step: "all_min_zero t \<Longrightarrow> all_min_zero (table_step t x)"
  by (cases x) (simp_all add: all_min_zero_addRow all_min_zero_setColumnValue)

lemma all_min_zero_foldl: "all_min_zero t \<Longrightarrow> all_min_zero (foldl table_step t ops)"
  by (induction ops arbitrary: t) (simp_all add: all_min_zero_step)

text \<open>
  C8. A table's columns start with \<^verbatim>\<open>minValueWidth = 0\<close>; the only write to the
  field is \<^verbatim>\<open>min(minValueWidth, width)\<close> in \<^verbatim>\<open>setColumnValue\<close>; so after any
  sequence of \<^verbatim>\<open>addRow\<close> and \<^verbatim>\<open>setColumnValue\<close> calls (throwing or not) every
  column's \<^verbatim>\<open>minValueWidth\<close> is still 0.
\<close>

theorem minValueWidth_stays_zero:
  "list_all (\<lambda>c. minValueWidth c = 0) (columns (table_run (Table_ctor numColumns) ops))"
  using all_min_zero_foldl [OF all_min_zero_ctor, of numColumns ops]
  by (simp add: all_min_zero_def table_run_def)

theorem minValueWidth_stays_zero_witness:
  "map minValueWidth
     (columns (table_run (Table_ctor 2)
        [AddRow, SetColumnValue 0 0 ''Name'', SetColumnValue 0 1 ''Null?'', SetColumnValue 5 0 ''x''])) = [0, 0]
   \<and> map maxValueWidth
     (columns (table_run (Table_ctor 2)
        [AddRow, SetColumnValue 0 0 ''Name'', SetColumnValue 0 1 ''Null?'', SetColumnValue 5 0 ''x''])) = [4, 5]"
proof -
  have two: "replicate 2 c = [c, c]" for c :: Column
    by (simp add: numeral_2_eq_2)
  show ?thesis
    using minValueWidth_stays_zero [of 2 "[AddRow, SetColumnValue 0 0 ''Name'', SetColumnValue 0 1 ''Null?'', SetColumnValue 5 0 ''x'']"]
    by (simp add: table_run_def Table_ctor_def default_Column_def addRow_def setColumnValue_def
        resolveValueIdx_def resize_def Let_def two)
qed

section \<open>Properties of the typed accessors\<close>

lemma other_accessors_check_dispatched_tag:
  "T \<noteq> T_uint64_t \<Longrightarrow> data_data d = Some a \<Longrightarrow>
   as_returns T n d = (data_typeNum d = dispatched_tag T)"
  by (cases T) (simp_all add: as_bool_def as_int64_t_def as_float_def as_double_def
      as_dpiTimestamp_def as_string_view_def checkErr_ok_def deref_def)

lemma as_string_view_reads_slot:
  "data_typeNum d = DPI_NATIVE_TYPE_BYTES \<Longrightarrow> data_data d = Some a \<Longrightarrow>
   as_string_view n d = Inr (asBytes (val (mem n a)))"
  by (simp add: as_string_view_def checkErr_ok_def deref_def)

text \<open>
  C1. \<^verbatim>\<open>as<uint64_t>()\<close> compares the cell's tag with \<^verbatim>\<open>DPI_NATIVE_TYPE_INT64\<close>:
  on a cell tagged \<^verbatim>\<open>DPI_NATIVE_TYPE_UINT64\<close>, the tag under which the caller
  in main.cpp asks for \<^verbatim>\<open>uint64_t\<close>, it throws the context-only "value for
  column is not uint64_t", and on a cell tagged \<^verbatim>\<open>DPI_NATIVE_TYPE_INT64\<close> it
  returns the slot read as unsigned. The other six accessors return exactly on
  the tag they are dispatched under (lemma above).
\<close>

theorem as_uint64_t_checks_the_int64_tag:
  "as_uint64_t n \<lparr>data_typeNum = dispatched_tag T_uint64_t, data_data = Some a\<rparr> =
     Inl (Thrown (OracleException ''value for column is not uint64_t'' None
            ''value for column is not uint64_t''))
   \<and> as_uint64_t n \<lparr>data_typeNum = DPI_NATIVE_TYPE_INT64, data_data = Some a\<rparr> =
     Inr (asUint64 (val (mem n a)))"
  by (simp add: as_uint64_t_def checkErr_ok_def OracleException_context_def deref_def)

section \<open>Properties of OracleVariable::setFrom\<close>

text \<open>
  C2. For every slot position and every string of 1073741822 bytes or more,
  \<^verbatim>\<open>setFrom\<close> throws an \<^verbatim>\<open>OracleException\<close> built from the description alone
  (no native error record) and leaves the driver untouched: no native call is
  made. For a shorter string the next native call is \<^verbatim>\<open>dpiVar_setFromBytes\<close>
  on the variable, with that position and those bytes.
\<close>

theorem setFrom_rejects_long_strings:
  "(1073741822 \<le> length s \<longrightarrow>
      OracleVariable_setFrom drv v pos s n =
        (Inl (Thrown (OracleException
           ''cannot set oracle variable from string variable longer than 1GB'' None
           ''cannot set oracle variable from string variable longer than 1GB'')), n))
   \<and> (length s < 1073741822 \<longrightarrow>
      (\<exists>rest. events (snd (OracleVariable_setFrom drv v pos s n)) =
         events n @ Var_setFromBytes (var_var v) pos s (word_of_nat (length s)) # rest))"
  by (auto simp: OracleVariable_setFrom_def dpiVar_setFromBytes_def checkErr_ctx_def Let_def
      record_event_def OracleContext_getLastError_def dpiContext_getError_def
      OracleException_context_def
      split: option.splits prod.splits if_splits)

theorem setFrom_rejects_long_strings_witness:
  "OracleVariable_setFrom accepting
     (OracleVariable_ctor (Some ctx0) DPI_NATIVE_TYPE_BYTES (Some 1) [])
     0 (replicate 1073741822 CHR ''a'') native0 =
     (Inl (Thrown (OracleException
        ''cannot set oracle variable from string variable longer than 1GB'' None
        ''cannot set oracle variable from string variable longer than 1GB'')), native0)
   \<and> events (snd (OracleVariable_setFrom accepting
        (OracleVariable_ctor (Some ctx0) DPI_NATIVE_TYPE_BYTES (Some 1) [])
        0 ''EMP'' native0)) = [Var_setFromBytes (Some 1) 0 ''EMP'' 3]"
  using
    setFrom_rejects_long_strings [of "replicate 1073741822 CHR ''a''" accepting
      "OracleVariable_ctor (Some ctx0) DPI_NATIVE_TYPE_BYTES (Some 1) []" 0 native0]
    setFrom_rejects_long_strings [of "''EMP''" accepting
      "OracleVariable_ctor (Some ctx0) DPI_NATIVE_TYPE_BYTES (Some 1) []" 0 native0]
  by (simp add: OracleVariable_setFrom_def dpiVar_setFromBytes_def checkErr_ctx_def Let_def
      record_event_def accepting_def native0_def OracleVariable_ctor_def DPI_SUCCESS_def)

section \<open>Properties of the environment's teardown\<close>

text \<open>
  C5. Destroying an \<^verbatim>\<open>OracleContext\<close> always calls \<^verbatim>\<open>dpiContext_destroy\<close> on its
  pointer. The destructor returns when the call reports success and aborts
  the process otherwise; it never throws.
\<close>

theorem OracleContext_dtor_aborts_on_failure:
  "events (snd (OracleContext_dtor drv c n)) = events n @ [Context_destroy (context_ctx c)]
   \<and> fst (OracleContext_dtor drv c n) =
       (if rc_of drv n (Context_destroy (context_ctx c)) = DPI_SUCCESS then Inr () else Inl Aborted)
   \<and> fst (OracleContext_dtor drv c n) \<noteq> Inl (Thrown e)"
  by (simp add: OracleContext_dtor_def dpiContext_destroy_def record_event_def)

theorem OracleContext_dtor_aborts_on_failure_witness:
  "OracleContext_dtor rejecting ctx0 native0 =
     (Inl Aborted, native0\<lparr>events := [Context_destroy (Some 7)]\<rparr>)
   \<and> OracleContext_dtor accepting ctx0 native0 =
     (Inr (), native0\<lparr>events := [Context_destroy (Some 7)]\<rparr>)"
  using OracleContext_dtor_aborts_on_failure [of rejecting ctx0 native0]
    OracleContext_dtor_aborts_on_failure [of accepting ctx0 native0]
  by (simp add: OracleContext_dtor_def dpiContext_destroy_def record_event_def rejecting_def
      accepting_def ctx0_def native0_def DPI_SUCCESS_def)

section \<open>Properties of OracleStatement::fetch\<close>

lemma fetch_False_cursor:
  "fst (OracleStatement_fetch drv s n) = Inr False \<Longrightarrow>
   \<exists>a. stmt_statement s = Some a \<and> cursor (snd (OracleStatement_fetch drv s n)) a = Some 0"
  by (auto simp: OracleStatement_fetch_def dpiStmt_fetch_def checkErr_ctx_def Let_def
      record_event_def DPI_SUCCESS_def DPI_FAILURE_def OracleContext_getLastError_def
      dpiContext_getError_def
      split: option.splits nat.splits if_splits prod.splits)

lemma fetch_exhausted:
  "stmt_statement s = Some a \<Longrightarrow> cursor n a = Some 0 \<Longrightarrow>
   fst (OracleStatement_fetch drv s n) = Inr False
   \<and> cursor (snd (OracleStatement_fetch drv s n)) a = Some 0"
  by (simp add: OracleStatement_fetch_def dpiStmt_fetch_def checkErr_ctx_def Let_def
      record_event_def DPI_SUCCESS_def)

lemma fetches_exhausted:
  "stmt_statement s = Some a \<Longrightarrow> cursor n a = Some 0 \<Longrightarrow>
   fetches drv s k n = replicate k (Inr False)"
proof (induction k arbitrary: n)
  case 0
  then show ?case by simp
next
  case (Suc k)
  from fetch_exhausted [OF Suc.prems, of drv]
  have r: "fst (OracleStatement_fetch drv s n) = Inr False"
    and c: "cursor (snd (OracleStatement_fetch drv s n)) a = Some 0"
    by simp_all
  from Suc.IH [OF Suc.prems(1) c] r show ?case
    by (simp add: split_beta)
qed

text \<open>
  C6. Once \<^verbatim>\<open>fetch()\<close> has returned false, every one of any number of further
  \<^verbatim>\<open>fetch()\<close> calls on the statement, with no \<^verbatim>\<open>execute()\<close> in between, returns
  false as well.
\<close>

theorem fetch_false_is_terminal:
  "fst (OracleStatement_fetch drv s n) = Inr False \<Longrightarrow>
   fetches drv s k (snd (OracleStatement_fetch drv s n)) = replicate k (Inr False)"
  using fetch_False_cursor fetches_exhausted by blast

theorem fetch_false_is_terminal_witness:
  "fetches accepting stmt0 2 (snd (OracleStatement_execute accepting stmt0 native0)) =
     [Inr True, Inr False]
   \<and> fetches accepting stmt0 3
       (snd (OracleStatement_fetch accepting stmt0
          (snd (OracleStatement_fetch accepting stmt0
             (snd (OracleStatement_execute accepting stmt0 native0)))))) =
     [Inr False, Inr False, Inr False]"
proof -
  have two: "fetches accepting stmt0 2 (snd (OracleStatement_execute accepting stmt0 native0)) =
     [Inr True, Inr False]"
    by (simp add: numeral_2_eq_2 OracleStatement_fetch_def OracleStatement_execute_def
        dpiStmt_execute_def dpiStmt_fetch_def checkErr_ctx_def Let_def record_event_def
        DPI_SUCCESS_def accepting_def native0_def stmt0_def)
  have exhausted: "fst (OracleStatement_fetch accepting stmt0
          (snd (OracleStatement_fetch accepting stmt0
             (snd (OracleStatement_execute accepting stmt0 native0))))) = Inr False"
    by (simp add: OracleStatement_fetch_def OracleStatement_execute_def
        dpiStmt_execute_def dpiStmt_fetch_def checkErr_ctx_def Let_def record_event_def
        DPI_SUCCESS_def accepting_def native0_def stmt0_def)
  show ?thesis
    using two fetch_false_is_terminal [OF exhausted, of 3]
    by (simp add: numeral_3_eq_3)
qed

section \<open>Properties of OracleConnection::newArrayVariable\<close>

lemma newArrayVariable_Inr:
  assumes "OracleConnection_newArrayVariable drv c vo n = (Inr v, n')"
  shows "\<exists>var base. var_var v = Some var \<and> var_nativeType v = nativeTypeNum vo \<and> var_ctx v = conn_ctx c
     \<and> var_allocatedData v = map (\<lambda>idx. \<lparr>data_typeNum = nativeTypeNum vo, data_data = Some (base + idx)\<rparr>) [0..<unat (maxArraySize vo)]
     \<and> mem n' = null_slots base (unat (maxArraySize vo)) (mem n)
     \<and> varSlots n' var = base \<and> refCount n' var = 1"
  using assms
  by (auto simp: OracleConnection_newArrayVariable_def dpiConn_newVar_def checkErr_ctx_def Let_def
       record_event_def OracleVariable_ctor_def OracleData_ctor_def ptr_add_def DPI_SUCCESS_def
       OracleContext_getLastError_def dpiContext_getError_def
       split: prod.splits if_splits option.splits sum.splits VariableOpts_variant.splits)

lemma setFrom_Inr:
  assumes "OracleVariable_setFrom drv v pos s n = (Inr (), n')" and "var_var v = Some var"
  shows "mem n' = (mem n)(varSlots n var + unat pos :=
            (mem n (varSlots n var + unat pos))\<lparr>isNull := 0,
               val := (val (mem n (varSlots n var + unat pos)))\<lparr>asBytes := take (unat (word_of_nat (length s) :: 32 word)) s\<rparr>\<rparr>)"
  using assms
  by (auto simp: OracleVariable_setFrom_def dpiVar_setFromBytes_def checkErr_ctx_def Let_def
       record_event_def DPI_SUCCESS_def OracleContext_getLastError_def dpiContext_getError_def
       split: prod.splits if_splits option.splits)

text \<open>
  C4. When \<^verbatim>\<open>newArrayVariable\<close> returns a variable, \<^verbatim>\<open>allocatedData()\<close> of that
  variable has exactly \<^verbatim>\<open>maxArraySize\<close> cells; each carries the native type tag
  of the options and reports \<^verbatim>\<open>isNull()\<close>; and after a \<^verbatim>\<open>setFrom\<close> into a
  slot that returns, the cell of that slot no longer reports null while every
  other cell still does.
\<close>

theorem newArrayVariable_allocatedData:
  assumes "OracleConnection_newArrayVariable drv c vo n = (Inr v, n')"
  shows "length (OracleVariable_allocatedData v) = unat (maxArraySize vo)
    \<and> (\<forall>d \<in> set (OracleVariable_allocatedData v).
          OracleData_nativeType d = nativeTypeNum vo \<and> OracleData_isNull n' d = Inr True)
    \<and> (\<forall>pos s n''. OracleVariable_setFrom drv v pos s n' = (Inr (), n'') \<longrightarrow>
          (\<forall>i < unat (maxArraySize vo).
             OracleData_isNull n'' (OracleVariable_allocatedData v ! i) = Inr (i \<noteq> unat pos)))"
proof -
  from newArrayVariable_Inr [OF assms] obtain var base where
    var: "var_var v = Some var" and
    v: "var_allocatedData v = map (\<lambda>idx. \<lparr>data_typeNum = nativeTypeNum vo, data_data = Some (base + idx)\<rparr>) [0..<unat (maxArraySize vo)]"
    and m: "mem n' = null_slots base (unat (maxArraySize vo)) (mem n)"
    and b: "varSlots n' var = base"
    by blast
  have 1: "length (OracleVariable_allocatedData v) = unat (maxArraySize vo)"
    by (simp add: OracleVariable_allocatedData_def v)
  have 2: "\<forall>d \<in> set (OracleVariable_allocatedData v).
          OracleData_nativeType d = nativeTypeNum vo \<and> OracleData_isNull n' d = Inr True"
    by (auto simp: OracleVariable_allocatedData_def v m OracleData_nativeType_def OracleData_isNull_def deref_def null_slots_def)
  have 3: "OracleData_isNull n'' (OracleVariable_allocatedData v ! i) = Inr (i \<noteq> unat pos)"
    if "OracleVariable_setFrom drv v pos s n' = (Inr (), n'')" and "i < unat (maxArraySize vo)" for pos s n'' i
    using setFrom_Inr [OF that(1) var] that(2)
    by (simp add: OracleVariable_allocatedData_def v m b OracleData_isNull_def deref_def null_slots_def)
  from 1 2 3 show ?thesis by blast
qed

theorem newArrayVariable_allocatedData_witness:
  "OracleVariable_allocatedData (projr (fst (OracleConnection_newArrayVariable accepting conn0 bytes_opts native0)))
     = [\<lparr>data_typeNum = DPI_NATIVE_TYPE_BYTES, data_data = Some 100\<rparr>, \<lparr>data_typeNum = DPI_NATIVE_TYPE_BYTES, data_data = Some 101\<rparr>]
  \<and> map (OracleData_isNull (snd (OracleConnection_newArrayVariable accepting conn0 bytes_opts native0)))
      (OracleVariable_allocatedData (projr (fst (OracleConnection_newArrayVariable accepting conn0 bytes_opts native0))))
     = [Inr True, Inr True]
  \<and> map (OracleData_isNull (snd (OracleVariable_setFrom accepting
             (projr (fst (OracleConnection_newArrayVariable accepting conn0 bytes_opts native0))) 1 ''EMP''
             (snd (OracleConnection_newArrayVariable accepting conn0 bytes_opts native0)))))
      (OracleVariable_allocatedData (projr (fst (OracleConnection_newArrayVariable accepting conn0 bytes_opts native0))))
     = [Inr True, Inr False]"
proof -
  let ?v = "OracleVariable_ctor (Some ctx0) DPI_NATIVE_TYPE_BYTES (Some 1)
     [\<lparr>data_typeNum = DPI_NATIVE_TYPE_BYTES, data_data = Some 100\<rparr>, \<lparr>data_typeNum = DPI_NATIVE_TYPE_BYTES, data_data = Some 101\<rparr>]"
  let ?r = "OracleConnection_newArrayVariable accepting conn0 bytes_opts native0"
  let ?w = "OracleVariable_setFrom accepting ?v 1 ''EMP'' (snd ?r)"
  have upt2: "[0..<2] = [0, Suc 0]" by (simp add: numeral_2_eq_2)
  have f: "fst ?r = Inr ?v"
    by (simp add: OracleConnection_newArrayVariable_def dpiConn_newVar_def checkErr_ctx_def Let_def
       record_event_def OracleVariable_ctor_def OracleData_ctor_def ptr_add_def DPI_SUCCESS_def
       accepting_def conn0_def bytes_opts_def native0_def upt2)
  then have e: "?r = (Inr ?v, snd ?r)"
    by (metis prod.collapse)
  have "fst ?w = Inr ()"
    by (simp add: OracleVariable_setFrom_def dpiVar_setFromBytes_def checkErr_ctx_def Let_def
       record_event_def OracleVariable_ctor_def DPI_SUCCESS_def accepting_def split_beta)
  then have w: "?w = (Inr (), snd ?w)"
    by (metis prod.collapse)
  note third = newArrayVariable_allocatedData [OF e, THEN conjunct2, THEN conjunct2, rule_format, OF w]
  have "OracleData_isNull (snd ?w) (OracleVariable_allocatedData ?v ! 0) = Inr True"
    "OracleData_isNull (snd ?w) (OracleVariable_allocatedData ?v ! 1) = Inr False"
    using third [of 0] third [of 1] by (simp_all add: bytes_opts_def)
  then show ?thesis
    using newArrayVariable_allocatedData [OF e] f
    by (simp add: OracleVariable_allocatedData_def OracleVariable_ctor_def)
qed

section \<open>Reference counting under copy, move, assignment and destruction\<close>

subsection \<open>The driver's counts\<close>

lemma refCount_record_event [simp]: "refCount (record_event e n) = refCount n"
  by (simp add: record_event_def)

lemma frees_refCount_update [simp]: "frees (n\<lparr>refCount := r\<rparr>) = frees n"
  by (rule ext) (simp add: frees_def)

lemma frees_record_event:
  "frees (record_event e n) = (case e of Freed a \<Rightarrow> (frees n)(a := frees n a + 1) | _ \<Rightarrow> frees n)"
  by (rule ext) (simp add: frees_def record_event_def split: dpi_event.splits)

lemma refCount_addRef [simp]: "refCount (dpi_addRef p n) = rc_addRef p (refCount n)"
  by (simp add: dpi_addRef_def rc_addRef_def Let_def split: option.splits)

lemma frees_addRef [simp]: "frees (dpi_addRef p n) = frees n"
  by (simp add: dpi_addRef_def Let_def frees_record_event split: option.splits)

lemma refCount_release [simp]: "refCount (dpi_release p n) = rc_release p (refCount n)"
  by (auto simp: dpi_release_def rc_release_def Let_def split: option.splits)

lemma frees_release [simp]: "frees (dpi_release p n) = fr_release p (refCount n) (frees n)"
  by (auto simp: dpi_release_def fr_release_def Let_def frees_record_event split: option.splits)

lemma rc_release_None [simp]: "rc_release None c = c"
  by (simp add: rc_release_def)

lemma fr_release_None [simp]: "fr_release None c f = f"
  by (simp add: fr_release_def)

lemma getStringValue_counts [simp]:
  "refCount (snd (dpiRowid_getStringValue p n)) = refCount n"
  "frees (snd (dpiRowid_getStringValue p n)) = frees n"
  by (simp_all add: dpiRowid_getStringValue_def Let_def frees_record_event split: option.splits)

lemma count_events_addRef [simp]: "count_events (dpi_addRef p n) = count_events n @ [AddRef p]"
  by (simp add: count_events_def dpi_addRef_def record_event_def Let_def split: option.splits)

lemma count_events_release [simp]:
  "count_events (dpi_release (Some a) n) = count_events n @ release_events (Some a) n"
  by (simp add: count_events_def dpi_release_def record_event_def release_events_def Let_def)

lemma count_events_getStringValue [simp]:
  "count_events (snd (dpiRowid_getStringValue p n)) = count_events n"
  by (simp add: count_events_def dpiRowid_getStringValue_def record_event_def Let_def
      split: option.splits)

lemma release_events_None [simp]: "release_events None n = []"
  by (simp add: release_events_def)

subsection \<open>The four handle types act on pointers and counts alike\<close>

lemma map_update_same:
  "j < length os \<Longrightarrow> f (os ! j) = v \<Longrightarrow> (map f os)[j := v] = map f os"
  by (simp add: list_update_same_conv)

lemma map_update_nth: "(map f os)[j := f (os ! j)] = map f os"
  by (cases "j < length os") (simp_all add: list_update_same_conv list_update_beyond)

lemma initStrValue_ptrs:
  "map rowid_rowId (fst (OracleRowId_initStrValue this (os, n))) = map rowid_rowId os"
  "refCount (snd (OracleRowId_initStrValue this (os, n))) = refCount n"
  "frees (snd (OracleRowId_initStrValue this (os, n))) = frees n"
  "count_events (snd (OracleRowId_initStrValue this (os, n))) = count_events n"
  by (simp_all add: OracleRowId_initStrValue_def Let_def split_beta map_update map_update_nth)

lemma var_laws: "handle_laws (OracleVariable_class junk)"
proof -
  have 1: "map var_var (fst (OracleVariable_copy_ctor junk j (os, n))) = map var_var os @ [var_var (os ! j)]
      \<and> refCount (snd (OracleVariable_copy_ctor junk j (os, n))) = rc_addRef (var_var (os ! j)) (refCount n)
      \<and> frees (snd (OracleVariable_copy_ctor junk j (os, n))) = frees n
      \<and> count_events (snd (OracleVariable_copy_ctor junk j (os, n))) = count_events n @ [AddRef (var_var (os ! j))]"
    if "j < length os" for j os n
    using that
    by (simp add: OracleVariable_copy_ctor_def Let_def dpiVar_addRef_def nth_append)
  have 2: "map var_var (fst (OracleVariable_move_ctor junk j (os, n))) = (map var_var os)[j := None] @ [var_var (os ! j)]
      \<and> refCount (snd (OracleVariable_move_ctor junk j (os, n))) = refCount n
      \<and> frees (snd (OracleVariable_move_ctor junk j (os, n))) = frees n
      \<and> count_events (snd (OracleVariable_move_ctor junk j (os, n))) = count_events n"
    if "j < length os" for j os n
    using that
    by (simp add: OracleVariable_move_ctor_def Let_def nth_append list_update_append map_update)
  have 3: "map var_var (fst (OracleVariable_copy_assign i j (os, n))) = (map var_var os)[i := var_var (os ! j)]
      \<and> refCount (snd (OracleVariable_copy_assign i j (os, n))) =
          rc_addRef (var_var (os ! j)) (rc_release (var_var (os ! i)) (refCount n))
      \<and> frees (snd (OracleVariable_copy_assign i j (os, n))) = fr_release (var_var (os ! i)) (refCount n) (frees n)
      \<and> count_events (snd (OracleVariable_copy_assign i j (os, n))) =
          count_events n @ release_events (var_var (os ! i)) n @ [AddRef (var_var (os ! j))]"
    if "i < length os" "j < length os" for i j os n
    using that
    by (cases "i = j"; cases "var_var (os ! i)")
       (simp_all add: OracleVariable_copy_assign_def Let_def dpiVar_addRef_def dpiVar_release_def map_update
          map_update_same)
  have 4: "map var_var (fst (OracleVariable_move_assign i j (os, n))) = (map var_var os)[i := var_var (os ! j), j := None]
      \<and> refCount (snd (OracleVariable_move_assign i j (os, n))) = rc_release (var_var (os ! i)) (refCount n)
      \<and> frees (snd (OracleVariable_move_assign i j (os, n))) = fr_release (var_var (os ! i)) (refCount n) (frees n)
      \<and> count_events (snd (OracleVariable_move_assign i j (os, n))) =
          count_events n @ release_events (var_var (os ! i)) n"
    if "i < length os" "j < length os" for i j os n
    using that
    by (cases "i = j"; cases "var_var (os ! i)")
       (simp_all add: OracleVariable_move_assign_def Let_def dpiVar_release_def map_update list_update_swap
          map_update_same)
  have 5: "refCount (OracleVariable_dtor i (os, n)) = rc_release (var_var (os ! i)) (refCount n)
      \<and> frees (OracleVariable_dtor i (os, n)) = fr_release (var_var (os ! i)) (refCount n) (frees n)
      \<and> count_events (OracleVariable_dtor i (os, n)) = count_events n @ release_events (var_var (os ! i)) n
      \<and> (var_var (os ! i) = None \<longrightarrow> OracleVariable_dtor i (os, n) = n)"
    if "i < length os" for i os n
    by (cases "var_var (os ! i)") (simp_all add: OracleVariable_dtor_def dpiVar_release_def)
  show ?thesis
    unfolding handle_laws_def
    by (simp add: OracleVariable_class_def 1 2 3 4 5)
qed

lemma conn_laws: "handle_laws OracleConnection_class"
proof -
  have 1: "map conn_conn (fst (OracleConnection_copy_ctor j (os, n))) = map conn_conn os @ [conn_conn (os ! j)]
      \<and> refCount (snd (OracleConnection_copy_ctor j (os, n))) = rc_addRef (conn_conn (os ! j)) (refCount n)
      \<and> frees (snd (OracleConnection_copy_ctor j (os, n))) = frees n
      \<and> count_events (snd (OracleConnection_copy_ctor j (os, n))) = count_events n @ [AddRef (conn_conn (os ! j))]"
    if "j < length os" for j os n
    using that
    by (simp add: OracleConnection_copy_ctor_def Let_def dpiConn_addRef_def nth_append)
  have 2: "map conn_conn (fst (OracleConnection_move_ctor j (os, n))) = (map conn_conn os)[j := None] @ [conn_conn (os ! j)]
      \<and> refCount (snd (OracleConnection_move_ctor j (os, n))) = refCount n
      \<and> frees (snd (OracleConnection_move_ctor j (os, n))) = frees n
      \<and> count_events (snd (OracleConnection_move_ctor j (os, n))) = count_events n"
    if "j < length os" for j os n
    using that
    by (simp add: OracleConnection_move_ctor_def Let_def nth_append list_update_append map_update)
  have 3: "map conn_conn (fst (OracleConnection_copy_assign i j (os, n))) = (map conn_conn os)[i := conn_conn (os ! j)]
      \<and> refCount (snd (OracleConnection_copy_assign i j (os, n))) =
          rc_addRef (conn_conn (os ! j)) (rc_release (conn_conn (os ! i)) (refCount n))
      \<and> frees (snd (OracleConnection_copy_assign i j (os, n))) = fr_release (conn_conn (os ! i)) (refCount n) (frees n)
      \<and> count_events (snd (OracleConnection_copy_assign i j (os, n))) =
          count_events n @ release_events (conn_conn (os ! i)) n @ [AddRef (conn_conn (os ! j))]"
    if "i < length os" "j < length os" for i j os n
    using that
    by (cases "i = j"; cases "conn_conn (os ! i)")
       (simp_all add: OracleConnection_copy_assign_def Let_def dpiConn_addRef_def dpiConn_release_def map_update
          map_update_same)
  have 4: "map conn_conn (fst (OracleConnection_move_assign i j (os, n))) = (map conn_conn os)[i := conn_conn (os ! j), j := None]
      \<and> refCount (snd (OracleConnection_move_assign i j (os, n))) = rc_release (conn_conn (os ! i)) (refCount n)
      \<and> frees (snd (OracleConnection_move_assign i j (os, n))) = fr_release (conn_conn (os ! i)) (refCount n) (frees n)
      \<and> count_events (snd (OracleConnection_move_assign i j (os, n))) =
          count_events n @ release_events (conn_conn (os ! i)) n"
    if "i < length os" "j < length os" for i j os n
    using that
    by (cases "i = j"; cases "conn_conn (os ! i)")
       (simp_all add: OracleConnection_move_assign_def Let_def dpiConn_release_def map_update list_update_swap
          map_update_same)
  have 5: "refCount (OracleConnection_dtor i (os, n)) = rc_release (conn_conn (os ! i)) (refCount n)
      \<and> frees (OracleConnection_dtor i (os, n)) = fr_release (conn_conn (os ! i)) (refCount n) (frees n)
      \<and> count_events (OracleConnection_dtor i (os, n)) = count_events n @ release_events (conn_conn (os ! i)) n
      \<and> (conn_conn (os ! i) = None \<longrightarrow> OracleConnection_dtor i (os, n) = n)"
    if "i < length os" for i os n
    by (cases "conn_conn (os ! i)") (simp_all add: OracleConnection_dtor_def dpiConn_release_def)
  show ?thesis
    unfolding handle_laws_def
    by (simp add: OracleConnection_class_def 1 2 3 4 5)
qed

lemma stmt_laws: "handle_laws OracleStatement_class"
proof -
  have 1: "map stmt_statement (fst (OracleStatement_copy_ctor j (os, n))) = map stmt_statement os @ [stmt_statement (os ! j)]
      \<and> refCount (snd (OracleStatement_copy_ctor j (os, n))) = rc_addRef (stmt_statement (os ! j)) (refCount n)
      \<and> frees (snd (OracleStatement_copy_ctor j (os, n))) = frees n
      \<and> count_events (snd (OracleStatement_copy_ctor j (os, n))) = count_events n @ [AddRef (stmt_statement (os ! j))]"
    if "j < length os" for j os n
    using that
    by (simp add: OracleStatement_copy_ctor_def Let_def dpiStmt_addRef_def nth_append)
  have 2: "map stmt_statement (fst (OracleStatement_move_ctor j (os, n))) = (map stmt_statement os)[j := None] @ [stmt_statement (os ! j)]
      \<and> refCount (snd (OracleStatement_move_ctor j (os, n))) = refCount n
      \<and> frees (snd (OracleStatement_move_ctor j (os, n))) = frees n
      \<and> count_events (snd (OracleStatement_move_ctor j (os, n))) = count_events n"
    if "j < length os" for j os n
    using that
    by (simp add: OracleStatement_move_ctor_def Let_def nth_append list_update_append map_update)
  have 3: "map stmt_statement (fst (OracleStatement_copy_assign i j (os, n))) = (map stmt_statement os)[i := stmt_statement (os ! j)]
      \<and> refCount (snd (OracleStatement_copy_assign i j (os, n))) =
          rc_addRef (stmt_statement (os ! j)) (rc_release (stmt_statement (os ! i)) (refCount n))
      \<and> frees (snd (OracleStatement_copy_assign i j (os, n))) = fr_release (stmt_statement (os ! i)) (refCount n) (frees n)
      \<and> count_events (snd (OracleStatement_copy_assign i j (os, n))) =
          count_events n @ release_events (stmt_statement (os ! i)) n @ [AddRef (stmt_statement (os ! j))]"
    if "i < length os" "j < length os" for i j os n
    using that
    by (cases "i = j"; cases "stmt_statement (os ! i)")
       (simp_all add: OracleStatement_copy_assign_def Let_def dpiStmt_addRef_def dpiStmt_release_def map_update
          map_update_same)
  have 4: "map stmt_statement (fst (OracleStatement_move_assign i j (os, n))) = (map stmt_statement os)[i := stmt_statement (os ! j), j := None]
      \<and> refCount (snd (OracleStatement_move_assign i j (os, n))) = rc_release (stmt_statement (os ! i)) (refCount n)
      \<and> frees (snd (OracleStatement_move_assign i j (os, n))) = fr_release (stmt_statement (os ! i)) (refCount n) (frees n)
      \<and> count_events (snd (OracleStatement_move_assign i j (os, n))) =
          count_events n @ release_events (stmt_statement (os ! i)) n"
    if "i < length os" "j < length os" for i j os n
    using that
    by (cases "i = j"; cases "stmt_statement (os ! i)")
       (simp_all add: OracleStatement_move_assign_def Let_def dpiStmt_release_def map_update list_update_swap
          map_update_same)
  have 5: "refCount (OracleStatement_dtor i (os, n)) = rc_release (stmt_statement (os ! i)) (refCount n)
      \<and> frees (OracleStatement_dtor i (os, n)) = fr_release (stmt_statement (os ! i)) (refCount n) (frees n)
      \<and> count_events (OracleStatement_dtor i (os, n)) = count_events n @ release_events (stmt_statement (os ! i)) n
      \<and> (stmt_statement (os ! i) = None \<longrightarrow> OracleStatement_dtor i (os, n) = n)"
    if "i < length os" for i os n
    by (cases "stmt_statement (os ! i)") (simp_all add: OracleStatement_dtor_def dpiStmt_release_def)
  show ?thesis
    unfolding handle_laws_def
    by (simp add: OracleStatement_class_def 1 2 3 4 5)
qed

lemma rowid_laws: "handle_laws OracleRowId_class"
proof -
  have 1: "map rowid_rowId (fst (OracleRowId_copy_ctor j (os, n))) = map rowid_rowId os @ [rowid_rowId (os ! j)]
      \<and> refCount (snd (OracleRowId_copy_ctor j (os, n))) = rc_addRef (rowid_rowId (os ! j)) (refCount n)
      \<and> frees (snd (OracleRowId_copy_ctor j (os, n))) = frees n
      \<and> count_events (snd (OracleRowId_copy_ctor j (os, n))) = count_events n @ [AddRef (rowid_rowId (os ! j))]"
    if "j < length os" for j os n
    using that
    by (simp add: OracleRowId_copy_ctor_def Let_def dpiRowid_addRef_def nth_append initStrValue_ptrs)
  have 2: "map rowid_rowId (fst (OracleRowId_move_ctor j (os, n))) = (map rowid_rowId os)[j := None] @ [rowid_rowId (os ! j)]
      \<and> refCount (snd (OracleRowId_move_ctor j (os, n))) = refCount n
      \<and> frees (snd (OracleRowId_move_ctor j (os, n))) = frees n
      \<and> count_events (snd (OracleRowId_move_ctor j (os, n))) = count_events n"
    if "j < length os" for j os n
    using that
    by (simp add: OracleRowId_move_ctor_def Let_def nth_append list_update_append map_update initStrValue_ptrs)
  have 3: "map rowid_rowId (fst (OracleRowId_copy_assign i j (os, n))) = (map rowid_rowId os)[i := rowid_rowId (os ! j)]
      \<and> refCount (snd (OracleRowId_copy_assign i j (os, n))) =
          rc_addRef (rowid_rowId (os ! j)) (rc_release (rowid_rowId (os ! i)) (refCount n))
      \<and> frees (snd (OracleRowId_copy_assign i j (os, n))) = fr_release (rowid_rowId (os ! i)) (refCount n) (frees n)
      \<and> count_events (snd (OracleRowId_copy_assign i j (os, n))) =
          count_events n @ release_events (rowid_rowId (os ! i)) n @ [AddRef (rowid_rowId (os ! j))]"
    if "i < length os" "j < length os" for i j os n
    using that
    by (cases "i = j"; cases "rowid_rowId (os ! i)")
       (simp_all add: OracleRowId_copy_assign_def Let_def dpiRowid_addRef_def dpiRowid_release_def map_update
          map_update_same initStrValue_ptrs)
  have 4: "map rowid_rowId (fst (OracleRowId_move_assign i j (os, n))) = (map rowid_rowId os)[i := rowid_rowId (os ! j), j := None]
      \<and> refCount (snd (OracleRowId_move_assign i j (os, n))) = rc_release (rowid_rowId (os ! i)) (refCount n)
      \<and> frees (snd (OracleRowId_move_assign i j (os, n))) = fr_release (rowid_rowId (os ! i)) (refCount n) (frees n)
      \<and> count_events (snd (OracleRowId_move_assign i j (os, n))) =
          count_events n @ release_events (rowid_rowId (os ! i)) n"
    if "i < length os" "j < length os" for i j os n
    using that
    by (cases "i = j"; cases "rowid_rowId (os ! i)")
       (simp_all add: OracleRowId_move_assign_def Let_def dpiRowid_release_def map_update list_update_swap
          map_update_same initStrValue_ptrs)
  have 5: "refCount (OracleRowId_dtor i (os, n)) = rc_release (rowid_rowId (os ! i)) (refCount n)
      \<and> frees (OracleRowId_dtor i (os, n)) = fr_release (rowid_rowId (os ! i)) (refCount n) (frees n)
      \<and> count_events (OracleRowId_dtor i (os, n)) = count_events n @ release_events (rowid_rowId (os ! i)) n
      \<and> (rowid_rowId (os ! i) = None \<longrightarrow> OracleRowId_dtor i (os, n) = n)"
    if "i < length os" for i os n
    by (cases "rowid_rowId (os ! i)") (simp_all add: OracleRowId_dtor_def dpiRowid_release_def)
  show ?thesis
    unfolding handle_laws_def
    by (simp add: OracleRowId_class_def 1 2 3 4 5)
qed

subsection \<open>Counting owners\<close>

lemma count_list_update:
  "i < length xs \<Longrightarrow>
   count_list (xs[i := v]) k + (if xs ! i = k then 1 else 0) =
   count_list xs k + (if v = k then 1 else 0)"
proof (induction xs arbitrary: i)
  case Nil
  then show ?case by simp
next
  case (Cons x xs)
  show ?case
  proof (cases i)
    case 0
    then show ?thesis by simp
  next
    case (Suc m)
    with Cons.prems have "m < length xs" by simp
    from Cons.IH [OF this] Suc show ?thesis by (auto split: if_splits)
  qed
qed

lemma count_list_nth_pos: "i < length xs \<Longrightarrow> xs ! i = k \<Longrightarrow> 0 < count_list xs k"
  by (metis count_list_0_iff gr0I nth_mem)

lemma balanced_CopyConstruct:
  assumes "balanced p s" "ausable s j"
  shows "balanced p (aexec (CopyConstruct j) s)"
proof -
  obtain q where q: "held s ! j = (q, True)" and j: "j < length (held s)"
    using assms(2) by (cases "held s ! j") (auto simp: ausable_def)
  have "q = Some p \<Longrightarrow> 0 < count_list (held s) (Some p, True)"
    using count_list_nth_pos [OF j] q by simp
  then show ?thesis
    using assms(1) q
    by (auto simp: balanced_def rc_addRef_def split: option.splits)
qed

lemma balanced_MoveConstruct:
  assumes "balanced p s" "ausable s j"
  shows "balanced p (aexec (MoveConstruct j) s)"
proof -
  obtain q where q: "held s ! j = (q, True)" and j: "j < length (held s)"
    using assms(2) by (cases "held s ! j") (auto simp: ausable_def)
  show ?thesis
    using assms(1) q count_list_update [OF j, of "(None, True)" "(Some p, True)"]
    by (auto simp: balanced_def split: if_splits)
qed

lemma balanced_Destroy:
  assumes "balanced p s" "ausable s i"
  shows "balanced p (aexec (Destroy i) s)"
proof -
  obtain q where q: "held s ! i = (q, True)" and i: "i < length (held s)"
    using assms(2) by (cases "held s ! i") (auto simp: ausable_def)
  have "q = Some p \<Longrightarrow> 0 < count_list (held s) (Some p, True)"
    using count_list_nth_pos [OF i] q by simp
  then show ?thesis
    using assms(1) q count_list_update [OF i, of "(q, False)" "(Some p, True)"]
    by (auto simp: balanced_def rc_release_def fr_release_def split: option.splits if_splits)
qed

lemma balanced_CopyAssign:
  assumes "balanced p s" "ausable s i" "ausable s j" "\<not> asole s (CopyAssign i j)"
  shows "balanced p (aexec (CopyAssign i j) s)"
proof -
  obtain q where q: "held s ! i = (q, True)" and i: "i < length (held s)"
    using assms(2) by (cases "held s ! i") (auto simp: ausable_def)
  obtain r where r: "held s ! j = (r, True)" and j: "j < length (held s)"
    using assms(3) by (cases "held s ! j") (auto simp: ausable_def)
  have qpos: "q = Some p \<Longrightarrow> 0 < count_list (held s) (Some p, True)"
    using count_list_nth_pos [OF i] q by simp
  have rpos: "r = Some p \<Longrightarrow> 0 < count_list (held s) (Some p, True)"
    using count_list_nth_pos [OF j] r by simp
  have two: "q = Some p \<Longrightarrow> r = Some p \<Longrightarrow> i \<noteq> j \<Longrightarrow> 1 < count_list (held s) (Some p, True)"
  proof -
    assume a: "q = Some p" "r = Some p" "i \<noteq> j"
    have "count_list ((held s)[i := (None, True)]) (Some p, True) + 1 = count_list (held s) (Some p, True)"
      using count_list_update [OF i, of "(None, True)" "(Some p, True)"] q a by simp
    moreover have "0 < count_list ((held s)[i := (None, True)]) (Some p, True)"
      using count_list_nth_pos [of j "(held s)[i := (None, True)]" "(Some p, True)"] j r a by simp
    ultimately show ?thesis by simp
  qed
  show ?thesis
    using assms(1,4) q r qpos rpos two count_list_update [OF i, of "(r, True)" "(Some p, True)"]
    by (auto simp: balanced_def rc_release_def rc_addRef_def fr_release_def split: option.splits if_splits)
qed

lemma balanced_MoveAssign:
  assumes "balanced p s" "ausable s i" "ausable s j"
  shows "balanced p (aexec (MoveAssign i j) s)"
proof -
  obtain q where q: "held s ! i = (q, True)" and i: "i < length (held s)"
    using assms(2) by (cases "held s ! i") (auto simp: ausable_def)
  obtain r where r: "held s ! j = (r, True)" and j: "j < length (held s)"
    using assms(3) by (cases "held s ! j") (auto simp: ausable_def)
  let ?h1 = "(held s)[i := (r, True)]"
  have qpos: "q = Some p \<Longrightarrow> 0 < count_list (held s) (Some p, True)"
    using count_list_nth_pos [OF i] q by simp
  have j1: "j < length ?h1" using j by simp
  have h1j: "?h1 ! j = (r, True)"
    using i j r by (cases "i = j") simp_all
  note u1 = count_list_update [OF i, of "(r, True)" "(Some p, True)"]
  note u2 = count_list_update [OF j1, of "(None, True)" "(Some p, True)"]
  show ?thesis
    using assms(1) q r qpos h1j u1 u2
    by (auto simp: balanced_def rc_release_def fr_release_def split: option.splits if_splits)
qed

lemma balanced_aexec:
  "balanced p s \<Longrightarrow> aop_ok s x \<Longrightarrow> \<not> asole s x \<Longrightarrow> balanced p (aexec x s)"
  by (cases x)
     (simp_all del: asole.simps aexec.simps add: balanced_CopyConstruct balanced_MoveConstruct
        balanced_CopyAssign balanced_MoveAssign balanced_Destroy)

subsection \<open>Programs over a handle type\<close>

lemma zip_update_left: "zip (xs[i := x]) ys = (zip xs ys)[i := (x, ys ! i)]"
  by (metis list_update_id zip_update)

lemma zip_update_right: "zip xs (ys[i := y]) = (zip xs ys)[i := (xs ! i, y)]"
  by (metis list_update_id zip_update)

lemma view_nth:
  "length (alive w) = length (objs w) \<Longrightarrow> i < length (objs w) \<Longrightarrow>
   view C w ! i = (handle_of C (objs w ! i), alive w ! i)"
  by (simp add: view_def)

lemma length_view: "length (alive w) = length (objs w) \<Longrightarrow> length (view C w) = length (objs w)"
  by (simp add: view_def)

lemma simulation:
  assumes L: "handle_laws C" and ok: "op_ok w x" and wf: "length (alive w) = length (objs w)"
  shows "abstract C (exec C x w) = aexec x (abstract C w)
         \<and> length (alive (exec C x w)) = length (objs (exec C x w))"
proof (cases x)
  case (CopyConstruct j)
  with ok have j: "j < length (objs w)" by (simp add: usable_def)
  from L j have
    m: "map (handle_of C) (fst (copy_ctor C j (objs w, driver_state w))) =
          map (handle_of C) (objs w) @ [handle_of C (objs w ! j)]"
    and r: "refCount (snd (copy_ctor C j (objs w, driver_state w))) =
          rc_addRef (handle_of C (objs w ! j)) (refCount (driver_state w))"
    and f: "frees (snd (copy_ctor C j (objs w, driver_state w))) = frees (driver_state w)"
    by (simp_all add: handle_laws_def)
  from m have len: "length (fst (copy_ctor C j (objs w, driver_state w))) = Suc (length (objs w))"
    by (metis length_append_singleton length_map)
  show ?thesis
    using j wf len
    by (simp add: CopyConstruct abstract_def view_def split_beta m r f)
next
  case (MoveConstruct j)
  with ok have j: "j < length (objs w)" by (simp add: usable_def)
  from L j have
    m: "map (handle_of C) (fst (move_ctor C j (objs w, driver_state w))) =
          (map (handle_of C) (objs w))[j := None] @ [handle_of C (objs w ! j)]"
    and r: "refCount (snd (move_ctor C j (objs w, driver_state w))) = refCount (driver_state w)"
    and f: "frees (snd (move_ctor C j (objs w, driver_state w))) = frees (driver_state w)"
    by (simp_all add: handle_laws_def)
  from m have len: "length (fst (move_ctor C j (objs w, driver_state w))) = Suc (length (objs w))"
    by (metis length_append_singleton length_list_update length_map)
  show ?thesis
    using j wf len
    by (simp add: MoveConstruct abstract_def view_def split_beta m r f zip_update_left)
next
  case (CopyAssign i j)
  with ok have i: "i < length (objs w)" and j: "j < length (objs w)" by (simp_all add: usable_def)
  from L i j have
    m: "map (handle_of C) (fst (copy_assign C i j (objs w, driver_state w))) =
          (map (handle_of C) (objs w))[i := handle_of C (objs w ! j)]"
    and r: "refCount (snd (copy_assign C i j (objs w, driver_state w))) =
          rc_addRef (handle_of C (objs w ! j)) (rc_release (handle_of C (objs w ! i)) (refCount (driver_state w)))"
    and f: "frees (snd (copy_assign C i j (objs w, driver_state w))) =
          fr_release (handle_of C (objs w ! i)) (refCount (driver_state w)) (frees (driver_state w))"
    by (simp_all add: handle_laws_def)
  from m have len: "length (fst (copy_assign C i j (objs w, driver_state w))) = length (objs w)"
    by (metis length_list_update length_map)
  show ?thesis
    using i j wf len
    by (simp add: CopyAssign abstract_def view_def split_beta m r f zip_update_left)
next
  case (MoveAssign i j)
  with ok have i: "i < length (objs w)" and j: "j < length (objs w)" by (simp_all add: usable_def)
  from L i j have
    m: "map (handle_of C) (fst (move_assign C i j (objs w, driver_state w))) =
          (map (handle_of C) (objs w))[i := handle_of C (objs w ! j), j := None]"
    and r: "refCount (snd (move_assign C i j (objs w, driver_state w))) =
          rc_release (handle_of C (objs w ! i)) (refCount (driver_state w))"
    and f: "frees (snd (move_assign C i j (objs w, driver_state w))) =
          fr_release (handle_of C (objs w ! i)) (refCount (driver_state w)) (frees (driver_state w))"
    by (simp_all add: handle_laws_def)
  from m have len: "length (fst (move_assign C i j (objs w, driver_state w))) = length (objs w)"
    by (metis length_list_update length_map)
  show ?thesis
    using i j wf len
    by (simp add: MoveAssign abstract_def view_def split_beta m r f zip_update_left)
next
  case (Destroy i)
  with ok have i: "i < length (objs w)" by (simp add: usable_def)
  from L i have
    r: "refCount (dtor C i (objs w, driver_state w)) =
          rc_release (handle_of C (objs w ! i)) (refCount (driver_state w))"
    and f: "frees (dtor C i (objs w, driver_state w)) =
          fr_release (handle_of C (objs w ! i)) (refCount (driver_state w)) (frees (driver_state w))"
    by (simp_all add: handle_laws_def)
  show ?thesis
    using i wf
    by (simp add: Destroy abstract_def view_def r f zip_update_right)
qed

lemma abstract_ok:
  "length (alive w) = length (objs w) \<Longrightarrow> op_ok w x \<Longrightarrow> aop_ok (abstract C w) x"
  by (cases x) (simp_all add: abstract_def usable_def ausable_def view_def)

lemma abstract_sole:
  "length (alive w) = length (objs w) \<Longrightarrow> op_ok w x \<Longrightarrow>
   asole (abstract C w) x = sole_self_copy C w x"
  by (cases x) (simp_all add: abstract_def usable_def view_def split: option.splits)

lemma run_balanced:
  assumes L: "handle_laws C"
  shows "run True C xs w = Some w' \<Longrightarrow> length (alive w) = length (objs w) \<Longrightarrow>
         balanced p (abstract C w) \<Longrightarrow>
         balanced p (abstract C w') \<and> length (alive w') = length (objs w')"
proof (induction xs arbitrary: w)
  case Nil
  then show ?case by simp
next
  case (Cons x xs)
  from Cons.prems(1) have ok: "op_ok w x" and ns: "\<not> sole_self_copy C w x"
    and rest: "run True C xs (exec C x w) = Some w'"
    by (simp_all split: if_splits)
  from simulation [OF L ok Cons.prems(2)] have
    sim: "abstract C (exec C x w) = aexec x (abstract C w)"
    and wf: "length (alive (exec C x w)) = length (objs (exec C x w))"
    by simp_all
  have "balanced p (aexec x (abstract C w))"
    using balanced_aexec [OF Cons.prems(3) abstract_ok [OF Cons.prems(2) ok]]
      abstract_sole [OF Cons.prems(2) ok] ns by simp
  then have "balanced p (abstract C (exec C x w))" by (simp add: sim)
  from Cons.IH [OF rest wf this] show ?case .
qed

lemma holder_counted:
  assumes "length (alive w) = length (objs w)" "usable w j" "handle_of C (objs w ! j) = Some p"
  shows "0 < holders C p w"
proof -
  have "j < length (view C w)" "view C w ! j = (Some p, True)"
    using assms by (simp_all add: usable_def view_def)
  then show ?thesis
    unfolding holders_def by (rule count_list_nth_pos)
qed

lemma nth_map_eq: "map f xs = ys \<Longrightarrow> i < length ys \<Longrightarrow> f (xs ! i) = ys ! i"
  by (metis length_map nth_map)

lemma last_map_eq: "map f xs = ys @ [y] \<Longrightarrow> f (last xs) = y"
  by (metis last_map last_snoc list.map_disc_iff snoc_eq_iff_butlast)

lemma construct_effects_holds:
  assumes L: "handle_laws C" and wf: "length (alive w) = length (objs w)"
    and ca: "counts_agree C p w"
  shows "construct_effects C p w"
  unfolding construct_effects_def
proof (intro allI impI)
  fix j assume u: "usable w j"
  then have j: "j < length (objs w)" by (simp add: usable_def)
  from L j have
    cm: "map (handle_of C) (fst (copy_ctor C j (objs w, driver_state w))) =
          map (handle_of C) (objs w) @ [handle_of C (objs w ! j)]"
    and cr: "refCount (snd (copy_ctor C j (objs w, driver_state w))) =
          rc_addRef (handle_of C (objs w ! j)) (refCount (driver_state w))"
    and mm: "map (handle_of C) (fst (move_ctor C j (objs w, driver_state w))) =
          (map (handle_of C) (objs w))[j := None] @ [handle_of C (objs w ! j)]"
    and mr: "refCount (snd (move_ctor C j (objs w, driver_state w))) = refCount (driver_state w)"
    and me: "count_events (snd (move_ctor C j (objs w, driver_state w))) = count_events (driver_state w)"
    by (simp_all add: handle_laws_def)
  have pos: "handle_of C (objs w ! j) = Some p \<Longrightarrow> 0 < refCount (driver_state w) p"
    using holder_counted [OF wf u] ca by (simp add: counts_agree_def)
  have c1: "handle_of C (objs w ! j) = Some p \<Longrightarrow>
      refCount (driver_state (exec C (CopyConstruct j) w)) p = refCount (driver_state w) p + 1"
    using pos by (simp add: split_beta cr rc_addRef_def)
  have c2: "handle_of C (last (objs (exec C (CopyConstruct j) w))) = handle_of C (objs w ! j)"
    using last_map_eq [OF cm] by (simp add: split_beta)
  have m3: "handle_of C (objs (exec C (MoveConstruct j) w) ! j) = None"
    using nth_map_eq [OF mm, of j] j by (simp add: split_beta nth_append)
  have m4: "handle_of C (last (objs (exec C (MoveConstruct j) w))) = handle_of C (objs w ! j)"
    using last_map_eq [OF mm] by (simp add: split_beta)
  show "(handle_of C (objs w ! j) = Some p \<longrightarrow>
           refCount (driver_state (exec C (CopyConstruct j) w)) p = refCount (driver_state w) p + 1
           \<and> handle_of C (last (objs (exec C (CopyConstruct j) w))) = Some p)
        \<and> refCount (driver_state (exec C (MoveConstruct j) w)) = refCount (driver_state w)
        \<and> count_events (driver_state (exec C (MoveConstruct j) w)) = count_events (driver_state w)
        \<and> handle_of C (objs (exec C (MoveConstruct j) w) ! j) = None
        \<and> handle_of C (last (objs (exec C (MoveConstruct j) w))) = handle_of C (objs w ! j)"
    using c1 c2 m3 m4 by (simp add: split_beta mr me)
qed

lemma assign_effects_holds:
  assumes L: "handle_laws C"
  shows "assign_effects C w"
  unfolding assign_effects_def
proof (intro allI impI)
  fix i j assume "usable w i \<and> usable w j"
  then have i: "i < length (objs w)" and j: "j < length (objs w)" by (simp_all add: usable_def)
  from L i j have
    cm: "map (handle_of C) (fst (copy_assign C i j (objs w, driver_state w))) =
          (map (handle_of C) (objs w))[i := handle_of C (objs w ! j)]"
    and ce: "count_events (snd (copy_assign C i j (objs w, driver_state w))) =
          count_events (driver_state w) @ release_events (handle_of C (objs w ! i)) (driver_state w)
          @ [AddRef (handle_of C (objs w ! j))]"
    and mm: "map (handle_of C) (fst (move_assign C i j (objs w, driver_state w))) =
          (map (handle_of C) (objs w))[i := handle_of C (objs w ! j), j := None]"
    and me: "count_events (snd (move_assign C i j (objs w, driver_state w))) =
          count_events (driver_state w) @ release_events (handle_of C (objs w ! i)) (driver_state w)"
    by (simp_all add: handle_laws_def)
  have c2: "handle_of C (objs (exec C (CopyAssign i j) w) ! i) = handle_of C (objs w ! j)"
    using nth_map_eq [OF cm, of i] i by (simp add: split_beta)
  have m2: "handle_of C (objs (exec C (MoveAssign i j) w) ! j) = None"
    using nth_map_eq [OF mm, of j] j by (simp add: split_beta)
  have m3: "i \<noteq> j \<Longrightarrow> handle_of C (objs (exec C (MoveAssign i j) w) ! i) = handle_of C (objs w ! j)"
    using nth_map_eq [OF mm, of i] i by (simp add: split_beta)
  show "count_events (driver_state (exec C (CopyAssign i j) w)) =
          count_events (driver_state w)
          @ release_events (handle_of C (objs w ! i)) (driver_state w)
          @ [AddRef (handle_of C (objs w ! j))]
        \<and> handle_of C (objs (exec C (CopyAssign i j) w) ! i) = handle_of C (objs w ! j)
        \<and> count_events (driver_state (exec C (MoveAssign i j) w)) =
          count_events (driver_state w)
          @ release_events (handle_of C (objs w ! i)) (driver_state w)
        \<and> handle_of C (objs (exec C (MoveAssign i j) w) ! j) = None
        \<and> (i \<noteq> j \<longrightarrow> handle_of C (objs (exec C (MoveAssign i j) w) ! i) = handle_of C (objs w ! j))"
    using c2 m2 m3 by (simp add: split_beta ce me)
qed

lemma destroy_effects_holds:
  assumes L: "handle_laws C" and wf: "length (alive w) = length (objs w)"
    and ca: "counts_agree C p w"
  shows "destroy_effects C p w"
  unfolding destroy_effects_def
proof (intro allI impI)
  fix i assume u: "usable w i"
  then have i: "i < length (objs w)" by (simp add: usable_def)
  from L i have
    r: "refCount (dtor C i (objs w, driver_state w)) =
          rc_release (handle_of C (objs w ! i)) (refCount (driver_state w))"
    and z: "handle_of C (objs w ! i) = None \<longrightarrow> dtor C i (objs w, driver_state w) = driver_state w"
    by (simp_all add: handle_laws_def)
  have pos: "handle_of C (objs w ! i) = Some p \<Longrightarrow> 0 < refCount (driver_state w) p"
    using holder_counted [OF wf u] ca by (simp add: counts_agree_def)
  show "(handle_of C (objs w ! i) = Some p \<longrightarrow>
           refCount (driver_state (exec C (Destroy i) w)) p + 1 = refCount (driver_state w) p)
        \<and> (handle_of C (objs w ! i) = None \<longrightarrow>
           driver_state (exec C (Destroy i) w) = driver_state w)"
    using pos z by (auto simp: r rc_release_def)
qed

lemma run_counted:
  assumes L: "handle_laws C" and s: "starts_owned C p x n"
    and r: "run True C xs (owned x n) = Some w"
  shows "counted C p w"
proof -
  have wf0: "length (alive (owned x n)) = length (objs (owned x n))"
    by (simp add: owned_def)
  have b0: "balanced p (abstract C (owned x n))"
    using s by (simp add: balanced_def abstract_def view_def owned_def starts_owned_def)
  from run_balanced [OF L r wf0 b0] have
    b: "balanced p (abstract C w)" and wf: "length (alive w) = length (objs w)"
    by simp_all
  from b have ca: "counts_agree C p w"
    by (simp add: balanced_def abstract_def counts_agree_def holders_def)
  show ?thesis
    unfolding counted_def
    using ca construct_effects_holds [OF L wf ca] assign_effects_holds [OF L]
      destroy_effects_holds [OF L wf ca]
    by simp
qed

lemmas var_defs = OracleVariable_class_def OracleVariable_copy_ctor_def OracleVariable_move_ctor_def
  OracleVariable_copy_assign_def OracleVariable_move_assign_def OracleVariable_dtor_def
  dpiVar_addRef_def dpiVar_release_def var1_def OracleVariable_ctor_def OracleData_ctor_def

lemmas run_defs = owned_def usable_def native1_def native0_def
  dpi_addRef_def dpi_release_def record_event_def Let_def

lemmas conn_defs = OracleConnection_class_def OracleConnection_copy_ctor_def
  OracleConnection_move_ctor_def OracleConnection_copy_assign_def OracleConnection_move_assign_def
  OracleConnection_dtor_def dpiConn_addRef_def dpiConn_release_def conn1_def

lemmas stmt_defs = OracleStatement_class_def OracleStatement_copy_ctor_def
  OracleStatement_move_ctor_def OracleStatement_copy_assign_def OracleStatement_move_assign_def
  OracleStatement_dtor_def dpiStmt_addRef_def dpiStmt_release_def stmt1_def

lemmas rowid_defs = OracleRowId_class_def OracleRowId_copy_ctor_def
  OracleRowId_move_ctor_def OracleRowId_copy_assign_def OracleRowId_move_assign_def
  OracleRowId_dtor_def OracleRowId_initStrValue_def dpiRowid_getStringValue_def
  dpiRowid_addRef_def dpiRowid_release_def rowid1_def

text \<open>
  C3. For each of the four handle types and every well-formed
  sequence of copy constructions, move constructions, copy assignments, move
  assignments and destructions that starts from one owning object and never
  copy-assigns an object to itself while it holds the only reference: the
  reference count of the handle equals the number of objects alive and holding
  it, and the driver has freed it exactly once if that number is zero and not
  at all otherwise. From every state so reached, a copy construction from an
  owner adds exactly one to the count and yields another owner; a move
  construction changes no count, makes no reference-counting call, nulls the
  source and hands its pointer to the new object; a copy assignment releases
  what the target held and then calls \<^verbatim>\<open>addRef\<close> on the source's pointer; a
  move assignment releases what the target held, calls no \<^verbatim>\<open>addRef\<close>, and
  nulls the source; destroying an owner takes exactly one off the count, and
  destroying a null object does nothing.
\<close>

theorem refcount_counts_live_owners:
  "(starts_owned (OracleVariable_class junk) p v n
      \<and> run True (OracleVariable_class junk) xs (owned v n) = Some w1
    \<longrightarrow> counted (OracleVariable_class junk) p w1)
   \<and> (starts_owned OracleConnection_class p c n
      \<and> run True OracleConnection_class xs (owned c n) = Some w2
    \<longrightarrow> counted OracleConnection_class p w2)
   \<and> (starts_owned OracleStatement_class p s n
      \<and> run True OracleStatement_class xs (owned s n) = Some w3
    \<longrightarrow> counted OracleStatement_class p w3)
   \<and> (starts_owned OracleRowId_class p r n
      \<and> run True OracleRowId_class xs (owned r n) = Some w4
    \<longrightarrow> counted OracleRowId_class p w4)"
  by (auto intro: run_counted [OF var_laws] run_counted [OF conn_laws]
      run_counted [OF stmt_laws] run_counted [OF rowid_laws])

theorem refcount_counts_live_owners_witness:
  "counted (OracleVariable_class DPI_NATIVE_TYPE_NULL) 1
     (the (run True (OracleVariable_class DPI_NATIVE_TYPE_NULL) example_ops (owned var1 native1)))
   \<and> counted OracleConnection_class 1
     (the (run True OracleConnection_class example_ops (owned conn1 native1)))
   \<and> counted OracleStatement_class 1
     (the (run True OracleStatement_class example_ops (owned stmt1 native1)))
   \<and> counted OracleRowId_class 1
     (the (run True OracleRowId_class example_ops (owned rowid1 native1)))
   \<and> refCount (driver_state (the (run True OracleConnection_class (take 4 example_ops)
        (owned conn1 native1)))) 1 = 2
   \<and> holders OracleConnection_class 1 (the (run True OracleConnection_class (take 4 example_ops)
        (owned conn1 native1))) = 2
   \<and> refCount (driver_state (the (run True OracleConnection_class example_ops
        (owned conn1 native1)))) 1 = 0
   \<and> frees (driver_state (the (run True OracleConnection_class example_ops
        (owned conn1 native1)))) 1 = 1"
proof -
  let ?V = "OracleVariable_class DPI_NATIVE_TYPE_NULL"
  have sv: "starts_owned ?V 1 var1 native1"
    by (simp add: starts_owned_def frees_def var_defs run_defs example_ops_def)
  have sc: "starts_owned OracleConnection_class 1 conn1 native1"
    by (simp add: starts_owned_def frees_def conn_defs run_defs example_ops_def)
  have ss: "starts_owned OracleStatement_class 1 stmt1 native1"
    by (simp add: starts_owned_def frees_def stmt_defs run_defs example_ops_def)
  have sr: "starts_owned OracleRowId_class 1 rowid1 native1"
    by (simp add: starts_owned_def frees_def rowid_defs run_defs example_ops_def)
  have "run True ?V example_ops (owned var1 native1) \<noteq> None"
    by (simp add: var_defs run_defs example_ops_def)
  then have rv: "run True ?V example_ops (owned var1 native1) =
      Some (the (run True ?V example_ops (owned var1 native1)))"
    by simp
  have "run True OracleConnection_class example_ops (owned conn1 native1) \<noteq> None"
    by (simp add: conn_defs run_defs example_ops_def)
  then have rc: "run True OracleConnection_class example_ops (owned conn1 native1) =
      Some (the (run True OracleConnection_class example_ops (owned conn1 native1)))"
    by simp
  have "run True OracleStatement_class example_ops (owned stmt1 native1) \<noteq> None"
    by (simp add: stmt_defs run_defs example_ops_def)
  then have rs: "run True OracleStatement_class example_ops (owned stmt1 native1) =
      Some (the (run True OracleStatement_class example_ops (owned stmt1 native1)))"
    by simp
  have "run True OracleRowId_class example_ops (owned rowid1 native1) \<noteq> None"
    by (simp add: rowid_defs run_defs example_ops_def)
  then have rr: "run True OracleRowId_class example_ops (owned rowid1 native1) =
      Some (the (run True OracleRowId_class example_ops (owned rowid1 native1)))"
    by simp
  have n1: "refCount (driver_state (the (run True OracleConnection_class (take 4 example_ops)
        (owned conn1 native1)))) 1 = 2"
    by (simp add: conn_defs run_defs example_ops_def)
  have n2: "holders OracleConnection_class 1 (the (run True OracleConnection_class
        (take 4 example_ops) (owned conn1 native1))) = 2"
    by (simp add: holders_def view_def conn_defs run_defs example_ops_def)
  have n3: "refCount (driver_state (the (run True OracleConnection_class example_ops
        (owned conn1 native1)))) 1 = 0"
    by (simp add: conn_defs run_defs example_ops_def)
  have n4: "frees (driver_state (the (run True OracleConnection_class example_ops
        (owned conn1 native1)))) 1 = 1"
    by (simp add: frees_def conn_defs run_defs example_ops_def)
  from refcount_counts_live_owners [of DPI_NATIVE_TYPE_NULL 1 var1 native1 example_ops
      "the (run True ?V example_ops (owned var1 native1))"
      conn1 "the (run True OracleConnection_class example_ops (owned conn1 native1))"
      stmt1 "the (run True OracleStatement_class example_ops (owned stmt1 native1))"
      rowid1 "the (run True OracleRowId_class example_ops (owned rowid1 native1))"]
    sv sc ss sr rv rc rs rr n1 n2 n3 n4
  show ?thesis by blast
qed

theorem refcount_counts_live_owners_counterexample:
  "starts_owned OracleConnection_class 1 conn1 native1
   \<and> run False OracleConnection_class [CopyAssign 0 0] (owned conn1 native1) \<noteq> None
   \<and> usable (the (run False OracleConnection_class [CopyAssign 0 0] (owned conn1 native1))) 0
   \<and> holders OracleConnection_class 1
        (the (run False OracleConnection_class [CopyAssign 0 0] (owned conn1 native1))) = 1
   \<and> refCount (driver_state
        (the (run False OracleConnection_class [CopyAssign 0 0] (owned conn1 native1)))) 1 = 0
   \<and> events (driver_state
        (the (run False OracleConnection_class [CopyAssign 0 0] (owned conn1 native1)))) =
        [Release (Some 1), Freed 1, AddRef (Some 1)]
   \<and> \<not> counts_agree OracleConnection_class 1
        (the (run False OracleConnection_class [CopyAssign 0 0] (owned conn1 native1)))
   \<and> refCount (driver_state
        (the (run False OracleConnection_class [CopyConstruct 0] (owned conn1 native1)))) 1 = 2
   \<and> refCount (driver_state
        (the (run False OracleConnection_class [CopyConstruct 0, MoveAssign 0 1]
           (owned conn1 native1)))) 1 = 1"
  by (simp add: starts_owned_def counts_agree_def holders_def view_def frees_def conn_defs run_defs)

section \<open>Assignment releases before it acquires\<close>

lemma self_copy_frees_holds:
  assumes L: "handle_laws C"
  shows "self_copy_frees C w"
  unfolding self_copy_frees_def
proof (intro allI impI)
  fix i p
  assume a: "usable w i \<and> handle_of C (objs w ! i) = Some p \<and> refCount (driver_state w) p = 1"
  then have i: "i < length (objs w)" and u: "usable w i"
    and h: "handle_of C (objs w ! i) = Some p" and one: "refCount (driver_state w) p = 1"
    by (simp_all add: usable_def)
  from L i have
    cm: "map (handle_of C) (fst (copy_assign C i i (objs w, driver_state w))) =
          (map (handle_of C) (objs w))[i := handle_of C (objs w ! i)]"
    and cr: "refCount (snd (copy_assign C i i (objs w, driver_state w))) =
          rc_addRef (handle_of C (objs w ! i)) (rc_release (handle_of C (objs w ! i)) (refCount (driver_state w)))"
    and ce: "count_events (snd (copy_assign C i i (objs w, driver_state w))) =
          count_events (driver_state w) @ release_events (handle_of C (objs w ! i)) (driver_state w)
          @ [AddRef (handle_of C (objs w ! i))]"
    by (simp_all add: handle_laws_def)
  from cm have len: "length (fst (copy_assign C i i (objs w, driver_state w))) = length (objs w)"
    by (metis length_list_update length_map)
  have p': "handle_of C (objs (exec C (CopyAssign i i) w) ! i) = Some p"
    using nth_map_eq [OF cm, of i] i h by (simp add: split_beta)
  show "count_events (driver_state (exec C (CopyAssign i i) w)) =
          count_events (driver_state w) @ [Release (Some p), Freed p, AddRef (Some p)]
        \<and> refCount (driver_state (exec C (CopyAssign i i) w)) p = 0
        \<and> usable (exec C (CopyAssign i i) w) i
        \<and> handle_of C (objs (exec C (CopyAssign i i) w) ! i) = Some p"
    using p' u len h one
    by (simp add: split_beta ce cr release_events_def rc_release_def rc_addRef_def usable_def)
qed

text \<open>
  C10. For each of the four handle types, from any state: a copy assignment
  first releases the handle the target holds (the driver freeing it if that
  was the last reference) and only then calls \<^verbatim>\<open>addRef\<close> on the source's
  pointer; a move assignment first releases the handle the target holds and
  then adopts the source's pointer, so that a move assignment of an object to
  itself leaves it null. Hence a copy assignment of an object to itself, when
  the object holds the only reference, makes the driver free the handle before
  the \<^verbatim>\<open>addRef\<close>: afterwards the count is zero while the object is alive and
  still holds the pointer.
\<close>

theorem assignment_releases_before_it_acquires:
  "(assign_effects (OracleVariable_class junk) w1 \<and> self_copy_frees (OracleVariable_class junk) w1)
   \<and> (assign_effects OracleConnection_class w2 \<and> self_copy_frees OracleConnection_class w2)
   \<and> (assign_effects OracleStatement_class w3 \<and> self_copy_frees OracleStatement_class w3)
   \<and> (assign_effects OracleRowId_class w4 \<and> self_copy_frees OracleRowId_class w4)"
  by (simp add: assign_effects_holds self_copy_frees_holds var_laws conn_laws stmt_laws rowid_laws)

theorem assignment_releases_before_it_acquires_witness:
  "events (driver_state (exec (OracleVariable_class DPI_NATIVE_TYPE_NULL) (CopyAssign 0 0) (owned var1 native1))) =
      [Release (Some 1), Freed 1, AddRef (Some 1)]
   \<and> refCount (driver_state (exec (OracleVariable_class DPI_NATIVE_TYPE_NULL) (CopyAssign 0 0) (owned var1 native1))) 1 = 0
   \<and> var_var (objs (exec (OracleVariable_class DPI_NATIVE_TYPE_NULL) (CopyAssign 0 0) (owned var1 native1)) ! 0) = Some 1
   \<and> events (driver_state (exec OracleStatement_class (CopyAssign 0 0) (owned stmt1 native1))) =
      [Release (Some 1), Freed 1, AddRef (Some 1)]
   \<and> refCount (driver_state (exec OracleStatement_class (CopyAssign 0 0) (owned stmt1 native1))) 1 = 0
   \<and> events (driver_state (exec OracleConnection_class (CopyAssign 0 0) (owned conn1 native1))) =
      [Release (Some 1), Freed 1, AddRef (Some 1)]
   \<and> events (driver_state (exec OracleRowId_class (CopyAssign 0 0) (owned rowid1 native1))) =
      [Release (Some 1), Freed 1, AddRef (Some 1), Rowid_getStringValue (Some 1)]
   \<and> rowid_strValue (objs (exec OracleRowId_class (CopyAssign 0 0) (owned rowid1 native1)) ! 0) = []
   \<and> events (driver_state (exec OracleRowId_class (MoveAssign 0 0) (owned rowid1 native1))) =
      [Release (Some 1), Freed 1, Rowid_getStringValue None]
   \<and> rowid_rowId (objs (exec OracleRowId_class (MoveAssign 0 0) (owned rowid1 native1)) ! 0) = None"
proof -
  note t = assignment_releases_before_it_acquires [of DPI_NATIVE_TYPE_NULL "owned var1 native1" "owned conn1 native1"
      "owned stmt1 native1" "owned rowid1 native1"]
  have "self_copy_frees (OracleVariable_class DPI_NATIVE_TYPE_NULL) (owned var1 native1)"
    using t by simp
  then have v: "refCount (driver_state (exec (OracleVariable_class DPI_NATIVE_TYPE_NULL) (CopyAssign 0 0) (owned var1 native1))) 1 = 0"
    unfolding self_copy_frees_def
    by (simp add: var_defs run_defs)
  show ?thesis
    using v
    by (simp add: var_defs conn_defs stmt_defs rowid_defs run_defs)
qed

section \<open>Properties of OracleRowId\<close>

lemma text_of_simps:
  "text_of (record_event e n) p = text_of n p"
  "text_of (snd (dpiRowid_getStringValue q n)) p = text_of n p"
  by (simp_all add: text_of_def dpiRowid_getStringValue_def record_event_def Let_def split: option.splits)






section \<open>What a copy of an OracleVariable carries\<close>

lemma returnedData_tags:
  "OracleVariable_returnedData drv x pos n = (Inr cells, n') \<Longrightarrow>
   \<forall>c \<in> set cells. data_typeNum c = var_nativeType x"
  by (auto simp: OracleVariable_returnedData_def dpiVar_getReturnedData_def checkErr_ctx_def Let_def
      OracleData_ctor_def split_beta OracleContext_getLastError_def dpiContext_getError_def
      split: if_splits option.splits sum.splits)

text \<open>
  C9. A copy or move of a variable \<open>v\<close> transfers only the
  context back-reference and the native variable pointer. A copy- or
  move-constructed variable has an empty \<^verbatim>\<open>allocatedData()\<close> and, as its
  element tag, whatever the uninitialised member holds (\<open>junk\<close>), not a value
  taken from \<open>v\<close>. The target of a copy or move assignment keeps the
  \<^verbatim>\<open>allocatedData()\<close> and the element tag it had before the assignment.
  \<^verbatim>\<open>returnedData()\<close> tags its cells with the element tag of the object it is
  called on. The variable returned by \<^verbatim>\<open>newArrayVariable\<close> carries the
  configured tag and one cell per slot.
\<close>

theorem OracleVariable_copy_carries_pointer_only:
  "(j < length os \<longrightarrow>
      last (fst (OracleVariable_copy_ctor junk j (os, n))) =
        \<lparr>var_ctx = var_ctx (os ! j), var_nativeType = junk, var_var = var_var (os ! j),
         var_allocatedData = []\<rparr>
      \<and> last (fst (OracleVariable_move_ctor junk j (os, n))) =
        \<lparr>var_ctx = var_ctx (os ! j), var_nativeType = junk, var_var = var_var (os ! j),
         var_allocatedData = []\<rparr>)
   \<and> (i < length os \<and> j < length os \<longrightarrow>
      fst (OracleVariable_copy_assign i j (os, n)) ! i =
        (os ! i)\<lparr>var_ctx := var_ctx (os ! j), var_var := var_var (os ! j)\<rparr>
      \<and> (i \<noteq> j \<longrightarrow> fst (OracleVariable_move_assign i j (os, n)) ! i =
        (os ! i)\<lparr>var_ctx := var_ctx (os ! j), var_var := var_var (os ! j)\<rparr>))
   \<and> (OracleVariable_returnedData drv x pos n = (Inr cells, n') \<longrightarrow>
      (\<forall>c \<in> set cells. data_typeNum c = var_nativeType x))
   \<and> (OracleConnection_newArrayVariable drv c vo n = (Inr y, n'') \<longrightarrow>
      var_nativeType y = nativeTypeNum vo
      \<and> length (OracleVariable_allocatedData y) = unat (maxArraySize vo))"
proof -
  have 1: "j < length os \<Longrightarrow>
      last (fst (OracleVariable_copy_ctor junk j (os, n))) =
        \<lparr>var_ctx = var_ctx (os ! j), var_nativeType = junk, var_var = var_var (os ! j),
         var_allocatedData = []\<rparr>
      \<and> last (fst (OracleVariable_move_ctor junk j (os, n))) =
        \<lparr>var_ctx = var_ctx (os ! j), var_nativeType = junk, var_var = var_var (os ! j),
         var_allocatedData = []\<rparr>"
    by (simp add: OracleVariable_copy_ctor_def OracleVariable_move_ctor_def Let_def
        list_update_append)
  have 2: "i < length os \<and> j < length os \<Longrightarrow>
      fst (OracleVariable_copy_assign i j (os, n)) ! i =
        (os ! i)\<lparr>var_ctx := var_ctx (os ! j), var_var := var_var (os ! j)\<rparr>
      \<and> (i \<noteq> j \<longrightarrow> fst (OracleVariable_move_assign i j (os, n)) ! i =
        (os ! i)\<lparr>var_ctx := var_ctx (os ! j), var_var := var_var (os ! j)\<rparr>)"
    by (cases "i = j"; cases "var_var (os ! i)")
       (simp_all add: OracleVariable_copy_assign_def OracleVariable_move_assign_def Let_def)
  have 3: "OracleVariable_returnedData drv x pos n = (Inr cells, n') \<Longrightarrow>
      (\<forall>c \<in> set cells. data_typeNum c = var_nativeType x)"
    by (rule returnedData_tags)
  have 4: "OracleConnection_newArrayVariable drv c vo n = (Inr y, n'') \<Longrightarrow>
      var_nativeType y = nativeTypeNum vo
      \<and> length (OracleVariable_allocatedData y) = unat (maxArraySize vo)"
    using newArrayVariable_Inr [of drv c vo n y n'']
    by (auto simp: OracleVariable_allocatedData_def)
  show ?thesis
    using 1 2 3 4 by blast
qed

theorem OracleVariable_copy_carries_pointer_only_witness:
  "last (fst (OracleVariable_copy_ctor DPI_NATIVE_TYPE_NULL 0 ([var1, var2], native1))) =
     \<lparr>var_ctx = Some ctx0, var_nativeType = DPI_NATIVE_TYPE_NULL, var_var = Some 1,
      var_allocatedData = []\<rparr>
   \<and> last (fst (OracleVariable_move_ctor DPI_NATIVE_TYPE_NULL 0 ([var1, var2], native1))) =
     \<lparr>var_ctx = Some ctx0, var_nativeType = DPI_NATIVE_TYPE_NULL, var_var = Some 1,
      var_allocatedData = []\<rparr>
   \<and> fst (OracleVariable_copy_assign 1 0 ([var1, var2], native1)) ! 1 =
     \<lparr>var_ctx = Some ctx0, var_nativeType = DPI_NATIVE_TYPE_INT64, var_var = Some 1,
      var_allocatedData = []\<rparr>
   \<and> fst (OracleVariable_move_assign 1 0 ([var1, var2], native1)) ! 1 =
     \<lparr>var_ctx = Some ctx0, var_nativeType = DPI_NATIVE_TYPE_INT64, var_var = Some 1,
      var_allocatedData = []\<rparr>
   \<and> fst (OracleVariable_returnedData accepting
        (last (fst (OracleVariable_copy_ctor DPI_NATIVE_TYPE_NULL 0 ([var1, var2], native1))))
        0 native1) =
     Inr [\<lparr>data_typeNum = DPI_NATIVE_TYPE_NULL, data_data = Some 200\<rparr>,
          \<lparr>data_typeNum = DPI_NATIVE_TYPE_NULL, data_data = Some 201\<rparr>]
   \<and> var_nativeType (projr (fst (OracleConnection_newArrayVariable accepting conn0 bytes_opts native1))) =
     DPI_NATIVE_TYPE_BYTES
   \<and> length (OracleVariable_allocatedData
        (projr (fst (OracleConnection_newArrayVariable accepting conn0 bytes_opts native1)))) = 2"
proof -
  let ?x = "last (fst (OracleVariable_copy_ctor DPI_NATIVE_TYPE_NULL 0 ([var1, var2], native1)))"
  let ?cells = "[\<lparr>data_typeNum = DPI_NATIVE_TYPE_NULL, data_data = Some 200\<rparr>,
          \<lparr>data_typeNum = DPI_NATIVE_TYPE_NULL, data_data = Some (201::nat)\<rparr>]"
  let ?rd = "OracleVariable_returnedData accepting ?x 0 native1"
  let ?nv = "OracleConnection_newArrayVariable accepting conn0 bytes_opts native1"
  have upt2: "[0..<2] = [0, Suc 0]" by (simp add: numeral_2_eq_2)
  have "fst ?rd = Inr ?cells"
    by (simp add: OracleVariable_returnedData_def dpiVar_getReturnedData_def checkErr_ctx_def
        Let_def split_beta OracleData_ctor_def ptr_add_def accepting_def DPI_SUCCESS_def upt2
        record_event_def OracleVariable_copy_ctor_def)
  then have rd: "?rd = (Inr ?cells, snd ?rd)"
    by (metis prod.collapse)
  have "\<not> isl (fst ?nv)"
    by (simp add: OracleConnection_newArrayVariable_def dpiConn_newVar_def checkErr_ctx_def
        Let_def split_beta accepting_def conn0_def bytes_opts_def DPI_SUCCESS_def record_event_def)
  then have nv: "?nv = (Inr (projr (fst ?nv)), snd ?nv)"
    by (metis prod.collapse sum.collapse(2))
  note t = OracleVariable_copy_carries_pointer_only [of 0 "[var1, var2]" DPI_NATIVE_TYPE_NULL
      native1 1 accepting ?x 0 ?cells "snd ?rd" conn0 bytes_opts "projr (fst ?nv)" "snd ?nv"]
  have a: "last (fst (OracleVariable_copy_ctor DPI_NATIVE_TYPE_NULL 0 ([var1, var2], native1))) =
     \<lparr>var_ctx = Some ctx0, var_nativeType = DPI_NATIVE_TYPE_NULL, var_var = Some 1,
      var_allocatedData = []\<rparr>
   \<and> last (fst (OracleVariable_move_ctor DPI_NATIVE_TYPE_NULL 0 ([var1, var2], native1))) =
     \<lparr>var_ctx = Some ctx0, var_nativeType = DPI_NATIVE_TYPE_NULL, var_var = Some 1,
      var_allocatedData = []\<rparr>"
    using t by (simp add: var1_def OracleVariable_ctor_def)
  have b: "fst (OracleVariable_copy_assign 1 0 ([var1, var2], native1)) ! 1 =
     \<lparr>var_ctx = Some ctx0, var_nativeType = DPI_NATIVE_TYPE_INT64, var_var = Some 1,
      var_allocatedData = []\<rparr>
   \<and> fst (OracleVariable_move_assign 1 0 ([var1, var2], native1)) ! 1 =
     \<lparr>var_ctx = Some ctx0, var_nativeType = DPI_NATIVE_TYPE_INT64, var_var = Some 1,
      var_allocatedData = []\<rparr>"
    using t by (simp add: var1_def var2_def OracleVariable_ctor_def)
  have c: "var_nativeType (projr (fst ?nv)) = DPI_NATIVE_TYPE_BYTES
      \<and> length (OracleVariable_allocatedData (projr (fst ?nv))) = 2"
    using t nv by (simp add: bytes_opts_def)
  show ?thesis
    using a b c \<open>fst ?rd = Inr ?cells\<close> by simp
qed

theorem OracleVariable_copy_carries_pointer_only_counterexample:
  "OracleVariable_allocatedData (fst (OracleVariable_move_assign 0 1 ([var1, var2], native1)) ! 0) =
     [OracleData_ctor DPI_NATIVE_TYPE_BYTES (Some 100)]
   \<and> var_var (fst (OracleVariable_move_assign 0 1 ([var1, var2], native1)) ! 0) = var_var var2
   \<and> OracleVariable_allocatedData (fst (OracleVariable_copy_assign 0 1 ([var1, var2], native1)) ! 0) \<noteq> []"
  by (simp add: OracleVariable_allocatedData_def var_defs var2_def)

end
